theory Spec2Isabelle
  imports Complex_Main "HOL-Library.Log_Nat"
begin

section \<open>JavaScript strings and values\<close>

text \<open>
  A JavaScript string is modelled as a \<^typ>\<open>string\<close>, the list of the bytes of its
  UTF-8 encoding; an ASCII character is one byte. The case conversions below act on the
  ASCII letters and leave every other byte alone, which is what \<^verbatim>\<open>toUpperCase\<close> and
  \<^verbatim>\<open>toLowerCase\<close> do on ASCII text. The few characters beyond ASCII in the generators'
  templates are written as their UTF-8 bytes.
\<close>

definition lowerLetters :: string where
  "lowerLetters = ''abcdefghijklmnopqrstuvwxyz''"

definition upperLetters :: string where
  "upperLetters = ''ABCDEFGHIJKLMNOPQRSTUVWXYZ''"

definition digits :: string where
  "digits = ''0123456789''"

definition toUpperCaseChar :: "char \<Rightarrow> char" where
  "toUpperCaseChar c =
     (case map_of (zip lowerLetters upperLetters) c of Some d \<Rightarrow> d | None \<Rightarrow> c)"

definition toLowerCaseChar :: "char \<Rightarrow> char" where
  "toLowerCaseChar c =
     (case map_of (zip upperLetters lowerLetters) c of Some d \<Rightarrow> d | None \<Rightarrow> c)"

definition toUpperCase :: "string \<Rightarrow> string" where
  "toUpperCase s = map toUpperCaseChar s"

definition toLowerCase :: "string \<Rightarrow> string" where
  "toLowerCase s = map toLowerCaseChar s"

text \<open>\<^verbatim>\<open>s.startsWith(p)\<close> and \<^verbatim>\<open>s.endsWith(p)\<close>.\<close>

definition startsWith :: "string \<Rightarrow> string \<Rightarrow> bool" where
  "startsWith s p = (take (length p) s = p)"

definition endsWith :: "string \<Rightarrow> string \<Rightarrow> bool" where
  "endsWith s p = (length p \<le> length s \<and> drop (length s - length p) s = p)"

text \<open>
  \<^verbatim>\<open>s.split(c)\<close> for a one-character separator: the pieces between the separators,
  empty pieces included; the empty string splits into one empty piece.
\<close>

fun split :: "char \<Rightarrow> string \<Rightarrow> string list" where
  "split sep [] = [[]]"
| "split sep (c # cs) =
     (if c = sep then [] # split sep cs
      else (case split sep cs of r # rs \<Rightarrow> (c # r) # rs | [] \<Rightarrow> [[c]]))"

text \<open>\<^verbatim>\<open>xs.join(sep)\<close> on an array of strings.\<close>

fun join :: "string \<Rightarrow> string list \<Rightarrow> string" where
  "join sep [] = []"
| "join sep [x] = x"
| "join sep (x # y # ys) = x @ sep @ join sep (y # ys)"

definition NL :: string where
  "NL = [CHR 0x0A]"

text \<open>
  \<^verbatim>\<open>a || d\<close> on an optional string: the default is taken when the field is absent and
  also when it is the empty string, which is falsy.
\<close>

definition strOr :: "string option \<Rightarrow> string \<Rightarrow> string" where
  "strOr a d = (case a of None \<Rightarrow> d | Some s \<Rightarrow> if s = [] then d else s)"

text \<open>\<^verbatim>\<open>a || d\<close> on an optional array or object, which is truthy whenever present.\<close>

definition orElse :: "'a option \<Rightarrow> 'a \<Rightarrow> 'a" where
  "orElse a d = (case a of None \<Rightarrow> d | Some v \<Rightarrow> v)"

text \<open>
  Numbers. A JavaScript number is modelled by its value: the rational that a finite
  double stands for, or one of the three special values. The two zeros are one value.
\<close>

datatype jsnum = NaN | PosInfinity | NegInfinity | Fin rat

text \<open>
  What the code reads from the JavaScript runtime without computing it: the text of a
  number placed in a template string, the current date as
  \<^verbatim>\<open>new Date().toISOString().split('T')[0]\<close> gives it, and the text that
  \<^verbatim>\<open>String\<close> gives for a member of \<^verbatim>\<open>Object.prototype\<close>, by the member's name.
  They are parameters of the model.
\<close>

record Runtime =
  numberToString :: "jsnum \<Rightarrow> string"
  today :: string
  memberToString :: "string \<Rightarrow> string"

definition truthyNum :: "jsnum \<Rightarrow> bool" where
  "truthyNum n = (case n of Fin r \<Rightarrow> r \<noteq> 0 | NaN \<Rightarrow> False | _ \<Rightarrow> True)"

text \<open>A value of TypeScript's \<^verbatim>\<open>any\<close> read from a JSON document.\<close>

datatype jsAny =
    JNull
  | JBool bool
  | JNum jsnum
  | JStr string
  | JArr "jsAny list"
  | JObj "(string \<times> jsAny) list"

text \<open>
  An object used as a dictionary (\<^verbatim>\<open>Record<string, T>\<close>) is modelled as the list of
  its entries in the order \<^verbatim>\<open>Object.entries\<close> enumerates them.
\<close>

type_synonym 'a dict = "(string \<times> 'a) list"


section \<open>JSON-Schema model parser (component-types.ts, JSONSchemaParser)\<close>

text \<open>\<^verbatim>\<open>type: string | string[]\<close> of a schema property.\<close>

datatype schemaType = TypeName string | TypeUnion "string list"

text \<open>The fields of \<^verbatim>\<open>JSONSchemaProperty\<close> that the parser reads.\<close>

datatype JSONSchemaProperty =
  JSONSchemaProperty
    (prop_type: schemaType)
    (prop_description: "string option")
    (prop_format: "string option")
    (prop_items: "JSONSchemaProperty option")
    (prop_default: "jsAny option")
    (prop_nullable: "bool option")

record JSONSchema =
  schema_title :: "string option"
  schema_description :: "string option"
  schema_type :: string
  schema_properties :: "JSONSchemaProperty dict option"
  schema_required :: "string list option"

record ParsedProperty =
  pp_name :: string
  pp_type :: string
  pp_description :: "string option"
  pp_optional :: bool
  pp_isArray :: bool
  pp_format :: "string option"
  pp_defaultValue :: "jsAny option"

record ParsedModel =
  pm_name :: string
  pm_description :: "string option"
  pm_properties :: "ParsedProperty list"

text \<open>The one error the parser throws, with its message.\<close>

datatype error = Error string

text \<open>
  \<^verbatim>\<open>resolveType\<close>: a union takes its first entry other than \<^verbatim>\<open>"null"\<close>, and
  \<^verbatim>\<open>"any"\<close> when there is none or when that entry is the empty string.
\<close>

definition JSONSchemaParser_resolveType :: "JSONSchemaProperty \<Rightarrow> string" where
  "JSONSchemaParser_resolveType prop =
     (case prop_type prop of
        TypeUnion ts \<Rightarrow> strOr (find (\<lambda>t. t \<noteq> ''null'') ts) ''any''
      | TypeName t \<Rightarrow> t)"

definition JSONSchemaParser_parseProperty :: "string \<Rightarrow> JSONSchemaProperty \<Rightarrow> bool \<Rightarrow> ParsedProperty" where
  "JSONSchemaParser_parseProperty name prop isRequired =
     (let type = JSONSchemaParser_resolveType prop;
          isArray = (type = ''array'');
          actualType =
            (case prop_items prop of
               Some items \<Rightarrow> if isArray then JSONSchemaParser_resolveType items else type
             | None \<Rightarrow> type)
      in \<lparr> pp_name = name,
           pp_type = actualType,
           pp_description = prop_description prop,
           pp_optional = (\<not> isRequired \<or> prop_nullable prop = Some True),
           pp_isArray = isArray,
           pp_format = prop_format prop,
           pp_defaultValue = prop_default prop \<rparr>)"

definition JSONSchemaParser_parseProperties :: "JSONSchemaProperty dict \<Rightarrow> string list \<Rightarrow> ParsedProperty list" where
  "JSONSchemaParser_parseProperties properties required =
     map (\<lambda>(name, prop). JSONSchemaParser_parseProperty name prop (name \<in> set required)) properties"

definition JSONSchemaParser_parse :: "JSONSchema \<Rightarrow> error + ParsedModel" where
  "JSONSchemaParser_parse schema =
     (if schema_type schema \<noteq> ''object''
      then Inl (Error ''Only object schemas are supported for model generation'')
      else Inr \<lparr> pm_name = strOr (schema_title schema) ''UnnamedModel'',
                 pm_description = schema_description schema,
                 pm_properties =
                   JSONSchemaParser_parseProperties (orElse (schema_properties schema) [])
                     (orElse (schema_required schema) []) \<rparr>)"


section \<open>More string helpers\<close>

text \<open>
  \<^verbatim>\<open>s.slice(b, e)\<close>: a negative index counts from the end, and both indices are
  clamped to the string. \<^verbatim>\<open>s.slice(b)\<close> runs to the end of the string.
\<close>

definition sliceIndex :: "nat \<Rightarrow> int \<Rightarrow> nat" where
  "sliceIndex len i = (if i < 0 then nat (max (int len + i) 0) else min (nat i) len)"

definition slice :: "string \<Rightarrow> int \<Rightarrow> int \<Rightarrow> string" where
  "slice s b e =
     (let from = sliceIndex (length s) b; to = sliceIndex (length s) e
      in take (to - from) (drop from s))"

definition sliceFrom :: "string \<Rightarrow> int \<Rightarrow> string" where
  "sliceFrom s b = drop (sliceIndex (length s) b) s"

text \<open>
  \<^verbatim>\<open>capitalize\<close>, the same helper in the OpenAPI parser and in the Kotlin theme
  generator: \<^verbatim>\<open>str.charAt(0).toUpperCase() + str.slice(1)\<close>.
\<close>

definition capitalize :: "string \<Rightarrow> string" where
  "capitalize str = toUpperCase (take 1 str) @ sliceFrom str 1"

definition isDigit :: "char \<Rightarrow> bool" where
  "isDigit c = (c \<in> set digits)"

definition isLetter :: "char \<Rightarrow> bool" where
  "isLetter c = (c \<in> set lowerLetters \<or> c \<in> set upperLetters)"


section \<open>OpenAPI parser (openapi-types.ts, OpenAPIParser)\<close>

datatype paramIn = InQuery | InHeader | InPath | InCookie

text \<open>The fields of \<^verbatim>\<open>OpenAPISchema\<close> that the parser reads.\<close>

datatype OpenAPISchema =
  OpenAPISchema
    (os_type: "string option")
    (os_format: "string option")
    (os_properties: "(string \<times> OpenAPISchema) list option")
    (os_items: "OpenAPISchema option")
    (os_required: "string list option")
    (os_ref: "string option")
    (os_description: "string option")

record OpenAPIParameter =
  par_name :: string
  par_in :: paramIn
  par_description :: "string option"
  par_required :: "bool option"
  par_schema :: OpenAPISchema

text \<open>
  The parser reads a media type's schema behind a guard (\<^verbatim>\<open>?.schema\<close>, then
  \<^verbatim>\<open>schema ? ... : ...\<close>), so the field is optional here.
\<close>

record OpenAPIMediaType =
  mt_schema :: "OpenAPISchema option"

record OpenAPIRequestBody =
  rb_description :: "string option"
  rb_required :: "bool option"
  rb_content :: "OpenAPIMediaType dict"

record OpenAPIResponse =
  resp_description :: string
  resp_content :: "OpenAPIMediaType dict option"

record OpenAPIOperation =
  op_operationId :: "string option"
  op_summary :: "string option"
  op_description :: "string option"
  op_tags :: "string list option"
  op_parameters :: "OpenAPIParameter list option"
  op_requestBody :: "OpenAPIRequestBody option"
  op_responses :: "OpenAPIResponse dict"

record OpenAPIPath =
  path_get :: "OpenAPIOperation option"
  path_post :: "OpenAPIOperation option"
  path_put :: "OpenAPIOperation option"
  path_patch :: "OpenAPIOperation option"
  path_delete :: "OpenAPIOperation option"
  path_parameters :: "OpenAPIParameter list option"

record OpenAPIInfo =
  info_title :: string
  info_version :: string
  info_description :: "string option"

record OpenAPIServer =
  server_url :: string
  server_description :: "string option"

record OpenAPIComponents =
  comp_schemas :: "OpenAPISchema dict option"

record OpenAPISpec =
  spec_openapi :: string
  spec_info :: OpenAPIInfo
  spec_servers :: "OpenAPIServer list option"
  spec_paths :: "OpenAPIPath dict"
  spec_components :: "OpenAPIComponents option"

record ParsedParameter =
  ppar_name :: string
  ppar_type :: string
  ppar_description :: "string option"
  ppar_required :: bool
  ppar_isArray :: bool
  ppar_format :: "string option"

record ParsedRequestBody =
  prb_type :: string
  prb_description :: "string option"
  prb_required :: bool
  prb_contentType :: string

record ParsedResponse =
  pr_statusCode :: string
  pr_type :: "string option"
  pr_description :: string
  pr_contentType :: "string option"

record ParsedEndpoint =
  ep_operationId :: string
  ep_method :: string
  ep_path :: string
  ep_summary :: "string option"
  ep_description :: "string option"
  ep_pathParams :: "ParsedParameter list"
  ep_queryParams :: "ParsedParameter list"
  ep_headerParams :: "ParsedParameter list"
  ep_requestBody :: "ParsedRequestBody option"
  ep_responses :: "ParsedResponse list"
  ep_tags :: "string list option"

record ParsedAPIProperty =
  pap_type :: string
  pap_description :: "string option"
  pap_isArray :: bool
  pap_format :: "string option"

record ParsedAPIModel =
  pam_name :: string
  pam_description :: "string option"
  pam_properties :: "ParsedAPIProperty dict"
  pam_required :: "string list"

record ParsedAPI =
  api_name :: string
  api_version :: string
  api_description :: "string option"
  api_baseUrl :: "string option"
  api_endpoints :: "ParsedEndpoint list"
  api_models :: "ParsedAPIModel list"

text \<open>
  \<^verbatim>\<open>resolveType\<close>: a non-empty \<^verbatim>\<open>$ref\<close> gives its last path segment; an array
  with items gives the type of its items; anything else its own type, or \<^verbatim>\<open>"any"\<close>.
\<close>

fun OpenAPIParser_resolveType :: "OpenAPISchema \<Rightarrow> string" where
  "OpenAPIParser_resolveType (OpenAPISchema type format properties items required ref description) =
     (if strOr ref [] \<noteq> [] then last (split CHR ''/'' (strOr ref []))
      else (case items of
              Some it \<Rightarrow>
                if type = Some ''array'' then OpenAPIParser_resolveType it else strOr type ''any''
            | None \<Rightarrow> strOr type ''any''))"

definition OpenAPIParser_parseParameter :: "OpenAPIParameter \<Rightarrow> ParsedParameter" where
  "OpenAPIParser_parseParameter param =
     (let isArray = (os_type (par_schema param) = Some ''array'');
          type =
            (case os_items (par_schema param) of
               Some items \<Rightarrow>
                 if isArray then OpenAPIParser_resolveType items
                 else OpenAPIParser_resolveType (par_schema param)
             | None \<Rightarrow> OpenAPIParser_resolveType (par_schema param))
      in \<lparr> ppar_name = par_name param,
           ppar_type = type,
           ppar_description = par_description param,
           ppar_required = orElse (par_required param) False,
           ppar_isArray = isArray,
           ppar_format = os_format (par_schema param) \<rparr>)"

text \<open>\<^verbatim>\<open>body.content[contentType]?.schema\<close>: the schema of the entry under that key.\<close>

definition contentSchema :: "OpenAPIMediaType dict \<Rightarrow> string \<Rightarrow> OpenAPISchema option" where
  "contentSchema content contentType =
     (case map_of content contentType of None \<Rightarrow> None | Some mt \<Rightarrow> mt_schema mt)"

definition OpenAPIParser_parseRequestBody :: "OpenAPIRequestBody \<Rightarrow> ParsedRequestBody" where
  "OpenAPIParser_parseRequestBody body =
     (let contentType =
            strOr (case rb_content body of [] \<Rightarrow> None | kv # _ \<Rightarrow> Some (fst kv))
              ''application/json'';
          schema = contentSchema (rb_content body) contentType
      in \<lparr> prb_type =
             (case schema of Some s \<Rightarrow> OpenAPIParser_resolveType s | None \<Rightarrow> ''any''),
           prb_description = rb_description body,
           prb_required = orElse (rb_required body) False,
           prb_contentType = contentType \<rparr>)"

definition OpenAPIParser_parseResponses :: "OpenAPIResponse dict \<Rightarrow> ParsedResponse list" where
  "OpenAPIParser_parseResponses responses =
     map (\<lambda>(statusCode, response).
            let contentType =
                  (case resp_content response of
                     None \<Rightarrow> None
                   | Some [] \<Rightarrow> None
                   | Some (kv # _) \<Rightarrow> Some (fst kv));
                schema =
                  (if strOr contentType [] \<noteq> []
                   then contentSchema (orElse (resp_content response) []) (strOr contentType [])
                   else None)
            in \<lparr> pr_statusCode = statusCode,
                 pr_type = map_option OpenAPIParser_resolveType schema,
                 pr_description = resp_description response,
                 pr_contentType = contentType \<rparr>)
         responses"

definition OpenAPIParser_parseProperties :: "OpenAPISchema dict \<Rightarrow> ParsedAPIProperty dict" where
  "OpenAPIParser_parseProperties properties =
     map (\<lambda>(name, schema).
            let isArray = (os_type schema = Some ''array'');
                type =
                  (case os_items schema of
                     Some items \<Rightarrow>
                       if isArray then OpenAPIParser_resolveType items
                       else OpenAPIParser_resolveType schema
                   | None \<Rightarrow> OpenAPIParser_resolveType schema)
            in (name, \<lparr> pap_type = type,
                        pap_description = os_description schema,
                        pap_isArray = isArray,
                        pap_format = os_format schema \<rparr>))
         properties"

definition OpenAPIParser_parseModels :: "OpenAPISchema dict \<Rightarrow> ParsedAPIModel list" where
  "OpenAPIParser_parseModels schemas =
     map (\<lambda>(name, schema).
            \<lparr> pam_name = name,
              pam_description = os_description schema,
              pam_properties = OpenAPIParser_parseProperties (orElse (os_properties schema) []),
              pam_required = orElse (os_required schema) [] \<rparr>)
         schemas"

text \<open>\<^verbatim>\<open>generateOperationId\<close>, with its comment "Convert /users/{id} to getUsersById".\<close>

definition OpenAPIParser_generateOperationId :: "string \<Rightarrow> string \<Rightarrow> string" where
  "OpenAPIParser_generateOperationId method path =
     (let parts = filter (\<lambda>p. p \<noteq> []) (split CHR ''/'' path);
          sanitized =
            map (\<lambda>p. if startsWith p ''{'' \<and> endsWith p ''}''
                      then ''By'' @ capitalize (slice p 1 (- 1))
                      else capitalize p)
              parts
      in toLowerCase method @ join [] sanitized)"

definition OpenAPIParser_sanitizeName :: "string \<Rightarrow> string" where
  "OpenAPIParser_sanitizeName name = filter (\<lambda>c. isLetter c \<or> isDigit c) name"

definition OpenAPIParser_parseOperation ::
  "string \<Rightarrow> string \<Rightarrow> OpenAPIOperation \<Rightarrow> OpenAPIParameter list \<Rightarrow> ParsedEndpoint" where
  "OpenAPIParser_parseOperation method path operation pathParams =
     (let operationId =
            strOr (op_operationId operation) (OpenAPIParser_generateOperationId method path);
          allParams = pathParams @ orElse (op_parameters operation) [];
          pathParameters = filter (\<lambda>p. par_in p = InPath) allParams;
          queryParameters = filter (\<lambda>p. par_in p = InQuery) allParams;
          headerParameters = filter (\<lambda>p. par_in p = InHeader) allParams
      in \<lparr> ep_operationId = operationId,
           ep_method = toUpperCase method,
           ep_path = path,
           ep_summary = op_summary operation,
           ep_description = op_description operation,
           ep_pathParams = map OpenAPIParser_parseParameter pathParameters,
           ep_queryParams = map OpenAPIParser_parseParameter queryParameters,
           ep_headerParams = map OpenAPIParser_parseParameter headerParameters,
           ep_requestBody = map_option OpenAPIParser_parseRequestBody (op_requestBody operation),
           ep_responses = OpenAPIParser_parseResponses (op_responses operation),
           ep_tags = op_tags operation \<rparr>)"

text \<open>The five methods the parser looks for on a path item, in the source's order.\<close>

definition methods :: "(string \<times> (OpenAPIPath \<Rightarrow> OpenAPIOperation option)) list" where
  "methods =
     [(''get'', path_get), (''post'', path_post), (''put'', path_put),
      (''patch'', path_patch), (''delete'', path_delete)]"

definition OpenAPIParser_parseEndpoints :: "OpenAPIPath dict \<Rightarrow> ParsedEndpoint list" where
  "OpenAPIParser_parseEndpoints paths =
     concat
       (map (\<lambda>(path, pathItem).
               concat
                 (map (\<lambda>(method, operationOf).
                         case operationOf pathItem of
                           Some operation \<Rightarrow>
                             [OpenAPIParser_parseOperation method path operation
                                (orElse (path_parameters pathItem) [])]
                         | None \<Rightarrow> [])
                    methods))
          paths)"

definition OpenAPIParser_parse :: "OpenAPISpec \<Rightarrow> ParsedAPI" where
  "OpenAPIParser_parse spec =
     \<lparr> api_name = OpenAPIParser_sanitizeName (info_title (spec_info spec)),
       api_version = info_version (spec_info spec),
       api_description = info_description (spec_info spec),
       api_baseUrl =
         (case spec_servers spec of
            None \<Rightarrow> None
          | Some [] \<Rightarrow> None
          | Some (server # _) \<Rightarrow> Some (server_url server)),
       api_endpoints = OpenAPIParser_parseEndpoints (spec_paths spec),
       api_models =
         OpenAPIParser_parseModels
           (orElse (case spec_components spec of None \<Rightarrow> None | Some c \<Rightarrow> comp_schemas c) []) \<rparr>"


section \<open>Plugin-spec parser (plugin-types.ts, PluginSpecParser)\<close>

record PluginConfigProperty =
  pcp_name :: string
  pcp_type :: string
  pcp_description :: "string option"
  pcp_required :: bool
  pcp_defaultValue :: "jsAny option"

record PluginConfigSpec =
  pcs_properties :: "PluginConfigProperty list"

record PluginMethodParameter =
  pmp_name :: string
  pmp_type :: string
  pmp_required :: bool
  pmp_defaultValue :: "jsAny option"

record PluginMethod =
  pmeth_name :: string
  pmeth_description :: "string option"
  pmeth_parameters :: "PluginMethodParameter list"
  pmeth_returnType :: string
  pmeth_isAsync :: bool
  pmeth_throws :: bool

record PluginModelProperty =
  pmodp_name :: string
  pmodp_type :: string
  pmodp_description :: "string option"
  pmodp_required :: bool

record PluginModel =
  pmod_name :: string
  pmod_description :: "string option"
  pmod_properties :: "PluginModelProperty list"

record PluginProvider =
  prov_name :: string
  prov_description :: "string option"
  prov_protocol :: "string option"

record PluginSpec =
  plugin_name :: string
  plugin_identifier :: string
  plugin_version :: string
  plugin_description :: "string option"
  plugin_author :: "string option"
  plugin_dependencies :: "string list option"
  plugin_configuration :: "PluginConfigSpec option"
  plugin_methods :: "PluginMethod list option"
  plugin_models :: "PluginModel list option"
  plugin_providers :: "PluginProvider list option"

record ParsedConfigProperty =
  cfg_name :: string
  cfg_type :: string
  cfg_description :: string
  cfg_required :: bool
  cfg_defaultValue :: "jsAny option"

record ParsedPluginConfig =
  ppc_properties :: "ParsedConfigProperty list"

record ParsedMethodParameter =
  mpar_name :: string
  mpar_type :: string
  mpar_required :: bool
  mpar_defaultValue :: "jsAny option"

record ParsedPluginMethod =
  meth_name :: string
  meth_description :: string
  meth_parameters :: "ParsedMethodParameter list"
  meth_returnType :: string
  meth_isAsync :: bool
  meth_throws :: bool

record ParsedModelProperty =
  modp_name :: string
  modp_type :: string
  modp_description :: string
  modp_required :: bool

record ParsedPluginModel =
  mod_name :: string
  mod_description :: string
  mod_properties :: "ParsedModelProperty list"

record ParsedPluginProvider =
  pprov_name :: string
  pprov_description :: string
  pprov_protocol :: string

record ParsedPlugin =
  pl_name :: string
  pl_identifier :: string
  pl_version :: string
  pl_description :: string
  pl_author :: string
  pl_dependencies :: "string list"
  pl_configuration :: ParsedPluginConfig
  pl_methods :: "ParsedPluginMethod list"
  pl_models :: "ParsedPluginModel list"
  pl_providers :: "ParsedPluginProvider list"
  pl_managerName :: string
  pl_protocolName :: "string option"

definition PluginSpecParser_parseConfig :: "PluginConfigSpec option \<Rightarrow> string \<Rightarrow> ParsedPluginConfig" where
  "PluginSpecParser_parseConfig config pluginName =
     (case config of
        None \<Rightarrow>
          \<lparr> ppc_properties =
              [\<lparr> cfg_name = ''enableDebugLogging'',
                 cfg_type = ''boolean'',
                 cfg_description = ''Whether to enable debug logging'',
                 cfg_required = False,
                 cfg_defaultValue = Some (JBool False) \<rparr>] \<rparr>
      | Some c \<Rightarrow>
          \<lparr> ppc_properties =
              map (\<lambda>prop. \<lparr> cfg_name = pcp_name prop,
                            cfg_type = pcp_type prop,
                            cfg_description = strOr (pcp_description prop) (pcp_name prop),
                            cfg_required = pcp_required prop,
                            cfg_defaultValue = pcp_defaultValue prop \<rparr>)
                (pcs_properties c) \<rparr>)"

definition PluginSpecParser_parseMethods :: "PluginMethod list \<Rightarrow> ParsedPluginMethod list" where
  "PluginSpecParser_parseMethods ms =
     map (\<lambda>method.
            \<lparr> meth_name = pmeth_name method,
              meth_description = strOr (pmeth_description method) (pmeth_name method),
              meth_parameters =
                map (\<lambda>param. \<lparr> mpar_name = pmp_name param,
                               mpar_type = pmp_type param,
                               mpar_required = pmp_required param,
                               mpar_defaultValue = pmp_defaultValue param \<rparr>)
                  (pmeth_parameters method),
              meth_returnType = pmeth_returnType method,
              meth_isAsync = pmeth_isAsync method,
              meth_throws = pmeth_throws method \<rparr>)
         ms"

definition PluginSpecParser_parseModels :: "PluginModel list \<Rightarrow> ParsedPluginModel list" where
  "PluginSpecParser_parseModels models =
     map (\<lambda>model.
            \<lparr> mod_name = pmod_name model,
              mod_description = strOr (pmod_description model) (pmod_name model),
              mod_properties =
                map (\<lambda>prop. \<lparr> modp_name = pmodp_name prop,
                              modp_type = pmodp_type prop,
                              modp_description = strOr (pmodp_description prop) (pmodp_name prop),
                              modp_required = pmodp_required prop \<rparr>)
                  (pmod_properties model) \<rparr>)
         models"

definition PluginSpecParser_parseProviders ::
  "PluginProvider list \<Rightarrow> string \<Rightarrow> ParsedPluginProvider list" where
  "PluginSpecParser_parseProviders providers defaultProtocol =
     map (\<lambda>provider.
            \<lparr> pprov_name = prov_name provider,
              pprov_description = strOr (prov_description provider) (prov_name provider),
              pprov_protocol = strOr (prov_protocol provider) defaultProtocol \<rparr>)
         providers"

definition PluginSpecParser_parse :: "PluginSpec \<Rightarrow> ParsedPlugin" where
  "PluginSpecParser_parse spec =
     (let name = plugin_name spec;
          pluginName = ''Cuppa'' @ name @ ''Plugin'';
          managerName = name @ ''Manager'';
          protocolName =
            (case plugin_providers spec of
               None \<Rightarrow> None
             | Some ps \<Rightarrow> if length ps > 0 then Some (name @ ''Provider'') else None)
      in \<lparr> pl_name = pluginName,
           pl_identifier =
             strOr (Some (plugin_identifier spec)) (''com.cuppa.'' @ toLowerCase name),
           pl_version = strOr (Some (plugin_version spec)) ''1.0.0'',
           pl_description =
             strOr (plugin_description spec) (''Plugin for '' @ name @ '' functionality''),
           pl_author = strOr (plugin_author spec) ''MyCuppa Team'',
           pl_dependencies = orElse (plugin_dependencies spec) [],
           pl_configuration = PluginSpecParser_parseConfig (plugin_configuration spec) name,
           pl_methods = PluginSpecParser_parseMethods (orElse (plugin_methods spec) []),
           pl_models = PluginSpecParser_parseModels (orElse (plugin_models spec) []),
           pl_providers =
             PluginSpecParser_parseProviders (orElse (plugin_providers spec) [])
               (strOr protocolName []),
           pl_managerName = managerName,
           pl_protocolName = protocolName \<rparr>)"


section \<open>Design-token value parser (design-tokens-types.ts, DesignTokensParser.parseValue)\<close>

text \<open>
  \<^verbatim>\<open>parseFloat\<close> of the runtime: leading white space is skipped, then the longest
  prefix that is a decimal literal (an optional sign, then \<^verbatim>\<open>Infinity\<close> or digits with
  an optional fraction and an optional exponent) gives the value, rounded to a double;
  without such a prefix the result is \<^verbatim>\<open>NaN\<close>.
\<close>

text \<open>
  The Number value of a mathematical value: the nearest IEEE 754 double, ties to the even
  significand, an infinity from \<^verbatim>\<open>2^1024\<close> on, and subnormal spacing below
  \<^verbatim>\<open>2^-1022\<close>.
\<close>

definition roundHalfEven :: "rat \<Rightarrow> int" where
  "roundHalfEven x =
     (let f = \<lfloor>x\<rfloor>; d = x - of_int f
      in if d < 1 / 2 then f else if 1 / 2 < d then f + 1 else if even f then f else f + 1)"

text \<open>The integer \<open>e\<close> with \<open>2^e \<le> a < 2^(e+1)\<close>, for a positive \<open>a\<close>.\<close>

definition floorLog2 :: "rat \<Rightarrow> int" where
  "floorLog2 a =
     (let (p, q) = quotient_of a; k = bitlen p - bitlen q
      in if 2 powi k \<le> a then k else k - 1)"

definition roundToDouble :: "rat \<Rightarrow> jsnum" where
  "roundToDouble r =
     (if r = 0 then Fin 0
      else
        (let a = \<bar>r\<bar>;
             e = max (floorLog2 a) (- 1022);
             ulp = 2 powi (e - 52);
             v = of_int (roundHalfEven (a / ulp)) * ulp
         in if 2 ^ 1024 \<le> v then (if r < 0 then NegInfinity else PosInfinity)
            else Fin (if r < 0 then - v else v)))"

text \<open>
  The white space that \<^verbatim>\<open>parseFloat\<close> skips (white space and line terminators of the
  language), each character as its UTF-8 bytes: U+0009 to U+000D, U+0020, U+00A0, U+1680,
  U+2000 to U+200A, U+2028, U+2029, U+202F, U+205F, U+3000 and U+FEFF.
\<close>

definition whiteSpaces :: "string list" where
  "whiteSpaces =
     [[CHR 0x09], [CHR 0x0A], [CHR 0x0B], [CHR 0x0C], [CHR 0x0D], [CHR 0x20],
      [CHR 0xC2, CHR 0xA0],
      [CHR 0xE1, CHR 0x9A, CHR 0x80],
      [CHR 0xE2, CHR 0x80, CHR 0x80], [CHR 0xE2, CHR 0x80, CHR 0x81],
      [CHR 0xE2, CHR 0x80, CHR 0x82], [CHR 0xE2, CHR 0x80, CHR 0x83],
      [CHR 0xE2, CHR 0x80, CHR 0x84], [CHR 0xE2, CHR 0x80, CHR 0x85],
      [CHR 0xE2, CHR 0x80, CHR 0x86], [CHR 0xE2, CHR 0x80, CHR 0x87],
      [CHR 0xE2, CHR 0x80, CHR 0x88], [CHR 0xE2, CHR 0x80, CHR 0x89],
      [CHR 0xE2, CHR 0x80, CHR 0x8A],
      [CHR 0xE2, CHR 0x80, CHR 0xA8], [CHR 0xE2, CHR 0x80, CHR 0xA9],
      [CHR 0xE2, CHR 0x80, CHR 0xAF],
      [CHR 0xE2, CHR 0x81, CHR 0x9F],
      [CHR 0xE3, CHR 0x80, CHR 0x80],
      [CHR 0xEF, CHR 0xBB, CHR 0xBF]]"

lemma whiteSpace_shortens:
  assumes "find (\<lambda>w. startsWith s w) whiteSpaces = Some w"
  shows "length (drop (length w) s) < length s"
proof -
  from assms have "w \<in> set whiteSpaces" and "startsWith s w"
    by (auto simp: find_Some_iff)
  then have "w \<noteq> []" and "take (length w) s = w"
    by (auto simp: whiteSpaces_def startsWith_def)
  then have "s \<noteq> []"
    by auto
  with \<open>w \<noteq> []\<close> show ?thesis
    by simp
qed

function skipWhiteSpace :: "string \<Rightarrow> string" where
  "skipWhiteSpace s =
     (case find (\<lambda>w. startsWith s w) whiteSpaces of
        Some w \<Rightarrow> skipWhiteSpace (drop (length w) s)
      | None \<Rightarrow> s)"
  by pat_completeness auto
termination
proof (relation "measure length")
  show "wf (measure length)" by simp
next
  fix s w :: string
  assume "find (\<lambda>w. startsWith s w) whiteSpaces = Some w"
  from whiteSpace_shortens [OF this] show "(drop (length w) s, s) \<in> measure length"
    by simp
qed

declare skipWhiteSpace.simps [simp del]

definition digitValue :: "char \<Rightarrow> nat" where
  "digitValue c =
     (case map_of (zip digits [0, 1, 2, 3, 4, 5, 6, 7, 8, 9]) c of Some n \<Rightarrow> n | None \<Rightarrow> 0)"

definition natOfDigits :: "string \<Rightarrow> nat" where
  "natOfDigits ds = foldl (\<lambda>a c. 10 * a + digitValue c) 0 ds"

definition exponentPart :: "string \<Rightarrow> int" where
  "exponentPart s =
     (case s of
        [] \<Rightarrow> 0
      | c # r \<Rightarrow>
          if c = CHR ''e'' \<or> c = CHR ''E'' then
            (let neg = startsWith r ''-'';
                 d = (if startsWith r ''-'' \<or> startsWith r ''+'' then drop 1 r else r);
                 ds = takeWhile isDigit d
             in if ds = [] then 0
                else if neg then - int (natOfDigits ds) else int (natOfDigits ds))
          else 0)"

definition scale10 :: "rat \<Rightarrow> int \<Rightarrow> rat" where
  "scale10 x e = (if 0 \<le> e then x * 10 ^ nat e else x / 10 ^ nat (- e))"

definition parseFloat :: "string \<Rightarrow> jsnum" where
  "parseFloat s =
     (let t = skipWhiteSpace s;
          neg = startsWith t ''-'';
          u = (if startsWith t ''-'' \<or> startsWith t ''+'' then drop 1 t else t)
      in if startsWith u ''Infinity'' then (if neg then NegInfinity else PosInfinity)
         else
           (let ip = takeWhile isDigit u;
                r1 = dropWhile isDigit u;
                fp = (if startsWith r1 ''.'' then takeWhile isDigit (drop 1 r1) else []);
                r2 = (if startsWith r1 ''.'' then dropWhile isDigit (drop 1 r1) else r1)
            in if ip = [] \<and> fp = [] then NaN
               else
                 (let m = of_nat (natOfDigits ip) + of_nat (natOfDigits fp) / 10 ^ length fp;
                      v = scale10 m (exponentPart r2)
                  in roundToDouble (if neg then - v else v))))"

text \<open>A token value is a string or a number (\<^verbatim>\<open>string | number\<close>).\<close>

datatype tokenValue = NumberValue jsnum | StringValue string

record NumWithUnit =
  numValue :: jsnum
  unit :: string

text \<open>
  The match of \<^verbatim>\<open>/^([\d.]+)([a-z%]*)$/i\<close>: the first group is the longest run of
  digits and dots at the start, which must not be empty, and the second group is the
  rest, which must consist of ASCII letters of either case and percent signs. The two
  character classes are disjoint, so a shorter first group never gives a match.
\<close>

definition isNumChar :: "char \<Rightarrow> bool" where
  "isNumChar c = (isDigit c \<or> c = CHR ''.'')"

definition isUnitChar :: "char \<Rightarrow> bool" where
  "isUnitChar c = (isLetter c \<or> c = CHR ''%'')"

definition matchValue :: "string \<Rightarrow> (string \<times> string) option" where
  "matchValue s =
     (let num = takeWhile isNumChar s; rest = dropWhile isNumChar s
      in if num \<noteq> [] \<and> list_all isUnitChar rest then Some (num, rest) else None)"

definition DesignTokensParser_parseValue :: "tokenValue \<Rightarrow> NumWithUnit" where
  "DesignTokensParser_parseValue v =
     (case v of
        NumberValue n \<Rightarrow> \<lparr> numValue = n, unit = ''px'' \<rparr>
      | StringValue s \<Rightarrow>
          (case matchValue s of
             Some (num, u) \<Rightarrow> \<lparr> numValue = parseFloat num, unit = strOr (Some u) ''px'' \<rparr>
           | None \<Rightarrow>
               \<lparr> numValue = (if truthyNum (parseFloat s) then parseFloat s else Fin 0),
                 unit = ''px'' \<rparr>))"


section \<open>Component-spec parser (component-types.ts, ComponentSpecParser)\<close>

record ComponentProperty =
  cprop_name :: string
  cprop_type :: string
  cprop_required :: bool
  cprop_defaultValue :: "jsAny option"
  cprop_description :: "string option"

record PaddingSides =
  sides_top :: "jsnum option"
  sides_bottom :: "jsnum option"
  sides_leading :: "jsnum option"
  sides_trailing :: "jsnum option"

text \<open>\<^verbatim>\<open>padding?: number | { top?, bottom?, leading?, trailing? }\<close>.\<close>

datatype paddingSpec = PaddingNumber jsnum | PaddingObject PaddingSides

record ComponentStyle =
  cstyle_backgroundColor :: "string option"
  cstyle_foregroundColor :: "string option"
  cstyle_borderColor :: "string option"
  cstyle_borderWidth :: "jsnum option"
  cstyle_cornerRadius :: "jsnum option"
  cstyle_padding :: "paddingSpec option"
  cstyle_font :: "string option"
  cstyle_fontWeight :: "string option"
  cstyle_minHeight :: "jsnum option"
  cstyle_maxWidth :: "string option"

record ComponentState =
  cstate_showSpinner :: "bool option"
  cstate_disableInteraction :: "bool option"
  cstate_opacity :: "jsnum option"
  cstate_backgroundColor :: "string option"
  cstate_foregroundColor :: "string option"
  cstate_borderColor :: "string option"
  cstate_scale :: "jsnum option"

record ComponentActionParameter =
  cap_name :: string
  cap_type :: string
  cap_label :: "string option"

text \<open>The action's \<^verbatim>\<open>type\<close> is declared \<^verbatim>\<open>'sync' | 'async'\<close>; the parser compares the
  string with \<^verbatim>\<open>'async'\<close>.\<close>

record ComponentAction =
  cact_name :: string
  cact_type :: string
  cact_parameters :: "ComponentActionParameter list"
  cact_returnType :: "string option"

record ComponentSlot =
  cslot_name :: string
  cslot_required :: bool
  cslot_description :: "string option"

record ComponentSpec =
  cspec_component :: string
  cspec_category :: string
  cspec_description :: "string option"
  cspec_properties :: "ComponentProperty list"
  cspec_style :: "ComponentStyle option"
  cspec_states :: "ComponentState dict option"
  cspec_actions :: "ComponentAction list option"
  cspec_slots :: "ComponentSlot list option"

text \<open>
  The interfaces of the parsed component declare \<^verbatim>\<open>swiftType: string\<close>. What the parser
  stores there is the result of \<^verbatim>\<open>mapToSwiftType\<close>, which is not always a string (see
  below), so the records are written for any type \<open>'t\<close> of that field; the declared
  interfaces, which the generators take, are the instances with a string.
\<close>

record 't ParsedComponentPropertyOf =
  cp_name :: string
  cp_type :: string
  cp_swiftType :: 't
  cp_required :: bool
  cp_defaultValue :: "jsAny option"
  cp_description :: string
  cp_isBinding :: bool

type_synonym ParsedComponentProperty = "string ParsedComponentPropertyOf"

record Padding =
  pad_top :: jsnum
  pad_bottom :: jsnum
  pad_leading :: jsnum
  pad_trailing :: jsnum

record ParsedStyle =
  st_backgroundColor :: "string option"
  st_foregroundColor :: "string option"
  st_borderColor :: "string option"
  st_borderWidth :: "jsnum option"
  st_cornerRadius :: "jsnum option"
  st_padding :: Padding
  st_font :: "string option"
  st_fontWeight :: "string option"
  st_minHeight :: "jsnum option"
  st_maxWidth :: "string option"

record ParsedState =
  ps_name :: string
  ps_showSpinner :: bool
  ps_disableInteraction :: bool
  ps_opacity :: "jsnum option"
  ps_backgroundColor :: "string option"
  ps_foregroundColor :: "string option"
  ps_borderColor :: "string option"
  ps_scale :: "jsnum option"

record 't ParsedActionParameterOf =
  apar_name :: string
  apar_type :: string
  apar_swiftType :: 't
  apar_label :: "string option"

type_synonym ParsedActionParameter = "string ParsedActionParameterOf"

record 't ParsedActionOf =
  act_name :: string
  act_isAsync :: bool
  act_parameters :: "'t ParsedActionParameterOf list"
  act_returnType :: string

type_synonym ParsedAction = "string ParsedActionOf"

record ParsedSlot =
  slot_name :: string
  slot_required :: bool
  slot_description :: string

record 't ParsedComponentOf =
  comp_name :: string
  comp_category :: string
  comp_description :: string
  comp_properties :: "'t ParsedComponentPropertyOf list"
  comp_style :: ParsedStyle
  comp_states :: "ParsedState dict"
  comp_actions :: "'t ParsedActionOf list"
  comp_slots :: "ParsedSlot list"
  comp_hasAsyncAction :: bool
  comp_hasLoadingState :: bool

type_synonym ParsedComponent = "string ParsedComponentOf"

text \<open>
  The table of \<^verbatim>\<open>mapToSwiftType\<close> is an object literal, and \<^verbatim>\<open>typeMap[type]\<close> reads
  it with any string as the key. The literal has nine keys of its own; for every other
  key the lookup goes on to \<^verbatim>\<open>Object.prototype\<close>, which answers the names of its members
  with a function (and \<^verbatim>\<open>__proto__\<close> with an object), all of them truthy. So the value
  of \<^verbatim>\<open>typeMap[type] || type\<close> is a string or a member of \<^verbatim>\<open>Object.prototype\<close>, here
  held by its name. The members are those of the language standard.
\<close>

datatype swiftTypeValue = SwiftText string | PrototypeMember string

definition typeMap :: "string dict" where
  "typeMap =
     [(''String'', ''String''), (''Int'', ''Int''), (''Double'', ''Double''),
      (''Bool'', ''Bool''), (''Color'', ''Color''), (''Font'', ''Font''),
      (''Image'', ''Image''), (''Void'', ''Void''), (''Any'', ''Any'')]"

definition inheritedMembers :: "string list" where
  "inheritedMembers =
     [''constructor'', ''__defineGetter__'', ''__defineSetter__'', ''hasOwnProperty'',
      ''__lookupGetter__'', ''__lookupSetter__'', ''isPrototypeOf'',
      ''propertyIsEnumerable'', ''toString'', ''valueOf'', ''__proto__'',
      ''toLocaleString'']"

text \<open>\<^verbatim>\<open>typeMap[type]\<close>, with \<open>None\<close> for \<^verbatim>\<open>undefined\<close>.\<close>

definition typeMapLookup :: "string \<Rightarrow> swiftTypeValue option" where
  "typeMapLookup type =
     (case map_of typeMap type of
        Some s \<Rightarrow> Some (SwiftText s)
      | None \<Rightarrow> if type \<in> set inheritedMembers then Some (PrototypeMember type) else None)"

text \<open>\<^verbatim>\<open>a || d\<close> on such a value: only \<^verbatim>\<open>undefined\<close> and the empty string are falsy.\<close>

definition swiftOr :: "swiftTypeValue option \<Rightarrow> swiftTypeValue \<Rightarrow> swiftTypeValue" where
  "swiftOr a d =
     (case a of
        None \<Rightarrow> d
      | Some (SwiftText s) \<Rightarrow> if s = [] then d else SwiftText s
      | Some (PrototypeMember name) \<Rightarrow> PrototypeMember name)"

text \<open>The text of such a value in a template string.\<close>

definition swiftTypeText :: "Runtime \<Rightarrow> swiftTypeValue \<Rightarrow> string" where
  "swiftTypeText rt v =
     (case v of SwiftText s \<Rightarrow> s | PrototypeMember name \<Rightarrow> memberToString rt name)"

lemma sliceIndex_arith:
  "0 < n \<Longrightarrow> e < 0 \<Longrightarrow> 0 \<le> b \<Longrightarrow>
   min (sliceIndex n e - sliceIndex n b) (n - sliceIndex n b) < n"
  unfolding sliceIndex_def by (simp add: min_def max_def) linarith

lemma slice_shorter:
  assumes "s \<noteq> []" and "e < 0" and "0 \<le> b"
  shows "length (slice s b e) < length s"
proof -
  have "0 < length s" using assms(1) by simp
  from sliceIndex_arith [OF this assms(2,3)] show ?thesis
    by (simp add: slice_def Let_def)
qed

lemma endsWith_nonempty: "endsWith s p \<Longrightarrow> p \<noteq> [] \<Longrightarrow> s \<noteq> []"
  by (auto simp: endsWith_def)

function ComponentSpecParser_mapToSwiftType :: "Runtime \<Rightarrow> string \<Rightarrow> swiftTypeValue" where
  "ComponentSpecParser_mapToSwiftType rt type =
     (if startsWith type ''Binding<'' \<and> endsWith type ''>''
      then ComponentSpecParser_mapToSwiftType rt (slice type 8 (- 1))
      else if endsWith type ''[]''
      then SwiftText
             (''['' @ swiftTypeText rt (ComponentSpecParser_mapToSwiftType rt (slice type 0 (- 2)))
              @ '']'')
      else if endsWith type ''?''
      then SwiftText
             (swiftTypeText rt (ComponentSpecParser_mapToSwiftType rt (slice type 0 (- 1)))
              @ ''?'')
      else swiftOr (typeMapLookup type) (SwiftText type))"
  by pat_completeness auto
termination
proof (relation "measure (\<lambda>(rt, type). length type)")
  show "wf (measure (\<lambda>(rt, type). length type))" by simp
next
  fix rt :: Runtime and type :: string
  assume "startsWith type ''Binding<'' \<and> endsWith type ''>''"
  then have "type \<noteq> []" using endsWith_nonempty by blast
  then show "((rt, slice type 8 (- 1)), (rt, type)) \<in> measure (\<lambda>(rt, type). length type)"
    by (simp add: slice_shorter)
next
  fix rt :: Runtime and type :: string
  assume "endsWith type ''[]''"
  then have "type \<noteq> []" using endsWith_nonempty by blast
  then show "((rt, slice type 0 (- 2)), (rt, type)) \<in> measure (\<lambda>(rt, type). length type)"
    by (simp add: slice_shorter)
next
  fix rt :: Runtime and type :: string
  assume "endsWith type ''?''"
  then have "type \<noteq> []" using endsWith_nonempty by blast
  then show "((rt, slice type 0 (- 1)), (rt, type)) \<in> measure (\<lambda>(rt, type). length type)"
    by (simp add: slice_shorter)
qed

declare ComponentSpecParser_mapToSwiftType.simps [simp del]

definition ComponentSpecParser_parseProperties ::
  "Runtime \<Rightarrow> ComponentProperty list \<Rightarrow> swiftTypeValue ParsedComponentPropertyOf list" where
  "ComponentSpecParser_parseProperties rt properties =
     map (\<lambda>prop.
            \<lparr> cp_name = cprop_name prop,
              cp_type = cprop_type prop,
              cp_swiftType = ComponentSpecParser_mapToSwiftType rt (cprop_type prop),
              cp_required = cprop_required prop,
              cp_defaultValue = cprop_defaultValue prop,
              cp_description = strOr (cprop_description prop) (cprop_name prop),
              cp_isBinding = startsWith (cprop_type prop) ''Binding<'' \<rparr>)
         properties"

definition defaultPadding :: Padding where
  "defaultPadding =
     \<lparr> pad_top = Fin 16, pad_bottom = Fin 16, pad_leading = Fin 16, pad_trailing = Fin 16 \<rparr>"

definition ComponentSpecParser_parseStyle :: "ComponentStyle option \<Rightarrow> ParsedStyle" where
  "ComponentSpecParser_parseStyle style =
     (case style of
        None \<Rightarrow>
          \<lparr> st_backgroundColor = None, st_foregroundColor = None, st_borderColor = None,
            st_borderWidth = None, st_cornerRadius = None, st_padding = defaultPadding,
            st_font = None, st_fontWeight = None, st_minHeight = None, st_maxWidth = None \<rparr>
      | Some s \<Rightarrow>
          (let padding =
                 (case cstyle_padding s of
                    Some (PaddingNumber n) \<Rightarrow>
                      \<lparr> pad_top = n, pad_bottom = n, pad_leading = n, pad_trailing = n \<rparr>
                  | Some (PaddingObject p) \<Rightarrow>
                      \<lparr> pad_top = orElse (sides_top p) (Fin 16),
                        pad_bottom = orElse (sides_bottom p) (Fin 16),
                        pad_leading = orElse (sides_leading p) (Fin 16),
                        pad_trailing = orElse (sides_trailing p) (Fin 16) \<rparr>
                  | None \<Rightarrow> defaultPadding)
           in \<lparr> st_backgroundColor = cstyle_backgroundColor s,
                st_foregroundColor = cstyle_foregroundColor s,
                st_borderColor = cstyle_borderColor s,
                st_borderWidth = cstyle_borderWidth s,
                st_cornerRadius = cstyle_cornerRadius s,
                st_padding = padding,
                st_font = cstyle_font s,
                st_fontWeight = cstyle_fontWeight s,
                st_minHeight = cstyle_minHeight s,
                st_maxWidth = cstyle_maxWidth s \<rparr>))"

definition ComponentSpecParser_parseStates :: "ComponentState dict option \<Rightarrow> ParsedState dict" where
  "ComponentSpecParser_parseStates states =
     (case states of
        None \<Rightarrow> []
      | Some entries \<Rightarrow>
          map (\<lambda>(name, state).
                 (name,
                  \<lparr> ps_name = name,
                    ps_showSpinner = orElse (cstate_showSpinner state) False,
                    ps_disableInteraction = orElse (cstate_disableInteraction state) False,
                    ps_opacity = cstate_opacity state,
                    ps_backgroundColor = cstate_backgroundColor state,
                    ps_foregroundColor = cstate_foregroundColor state,
                    ps_borderColor = cstate_borderColor state,
                    ps_scale = cstate_scale state \<rparr>))
            entries)"

definition ComponentSpecParser_parseActions ::
  "Runtime \<Rightarrow> ComponentAction list \<Rightarrow> swiftTypeValue ParsedActionOf list" where
  "ComponentSpecParser_parseActions rt actions =
     map (\<lambda>action.
            \<lparr> act_name = cact_name action,
              act_isAsync = (cact_type action = ''async''),
              act_parameters =
                map (\<lambda>param. \<lparr> apar_name = cap_name param,
                               apar_type = cap_type param,
                               apar_swiftType =
                                 ComponentSpecParser_mapToSwiftType rt (cap_type param),
                               apar_label = cap_label param \<rparr>)
                  (cact_parameters action),
              act_returnType = strOr (cact_returnType action) ''Void'' \<rparr>)
         actions"

definition ComponentSpecParser_parseSlots :: "ComponentSlot list \<Rightarrow> ParsedSlot list" where
  "ComponentSpecParser_parseSlots slots =
     map (\<lambda>slot. \<lparr> slot_name = cslot_name slot,
                   slot_required = cslot_required slot,
                   slot_description = strOr (cslot_description slot) (cslot_name slot) \<rparr>)
         slots"

definition ComponentSpecParser_parse ::
  "Runtime \<Rightarrow> ComponentSpec \<Rightarrow> swiftTypeValue ParsedComponentOf" where
  "ComponentSpecParser_parse rt spec =
     (let actions = ComponentSpecParser_parseActions rt (orElse (cspec_actions spec) []);
          hasAsyncAction = list_ex act_isAsync actions;
          hasLoadingState =
            (case cspec_states spec of
               None \<Rightarrow> False
             | Some states \<Rightarrow> map_of states ''loading'' \<noteq> None)
      in \<lparr> comp_name = cspec_component spec,
           comp_category = cspec_category spec,
           comp_description = strOr (cspec_description spec) (cspec_component spec),
           comp_properties = ComponentSpecParser_parseProperties rt (cspec_properties spec),
           comp_style = ComponentSpecParser_parseStyle (cspec_style spec),
           comp_states = ComponentSpecParser_parseStates (cspec_states spec),
           comp_actions = actions,
           comp_slots = ComponentSpecParser_parseSlots (orElse (cspec_slots spec) []),
           comp_hasAsyncAction = hasAsyncAction,
           comp_hasLoadingState = hasLoadingState \<rparr>)"


section \<open>Swift component generator (swift-component-generator.ts)\<close>

text \<open>\<^verbatim>\<open>String(value)\<close> and the truthiness of a value of type \<^verbatim>\<open>any\<close>.\<close>

fun anyToString :: "(jsnum \<Rightarrow> string) \<Rightarrow> jsAny \<Rightarrow> string" where
  "anyToString ns JNull = ''null''"
| "anyToString ns (JBool b) = (if b then ''true'' else ''false'')"
| "anyToString ns (JNum n) = ns n"
| "anyToString ns (JStr s) = s"
| "anyToString ns (JArr xs) =
     join '','' (map (\<lambda>x. if x = JNull then [] else anyToString ns x) xs)"
| "anyToString ns (JObj kvs) = ''[object Object]''"

definition truthy :: "jsAny \<Rightarrow> bool" where
  "truthy v =
     (case v of
        JNull \<Rightarrow> False
      | JBool b \<Rightarrow> b
      | JNum n \<Rightarrow> truthyNum n
      | JStr s \<Rightarrow> s \<noteq> []
      | JArr xs \<Rightarrow> True
      | JObj kvs \<Rightarrow> True)"

definition DQ :: string where
  "DQ = [CHR 0x22]"

definition codeFence :: string where
  "codeFence = [CHR 0x60, CHR 0x60, CHR 0x60]"

definition copyrightSign :: string where
  "copyrightSign = [CHR 0xC2, CHR 0xA9]"

definition warningSign :: string where
  "warningSign = [CHR 0xE2, CHR 0x9A, CHR 0xA0, CHR 0xEF, CHR 0xB8, CHR 0x8F]"

definition SwiftComponentGenerator_createHeader :: "Runtime \<Rightarrow> string \<Rightarrow> string \<Rightarrow> string" where
  "SwiftComponentGenerator_createHeader rt componentName sourceFile =
     join NL
       [''//'',
        ''//  '' @ componentName @ ''.swift'',
        ''//  CuppaUI'',
        ''//'',
        ''//  Generated from component specifications on '' @ today rt @ ''.'',
        ''//  Copyright '' @ copyrightSign @ '' 2025 MyCuppa. All rights reserved.'',
        ''//'',
        ''//  '' @ componentName @ '' component'',
        ''//'',
        ''//  '' @ warningSign
          @ '' DO NOT EDIT: This file is auto-generated from component specifications.'',
        ''//  Source: '' @ sourceFile,
        ''//  To make changes, update the component JSON files and regenerate.'',
        ''//'',
        '''']"

definition SwiftComponentGenerator_generateExampleUsage :: "ParsedComponent \<Rightarrow> string" where
  "SwiftComponentGenerator_generateExampleUsage component =
     (let requiredProps = filter cp_required (comp_properties component);
          propsStr =
            join '', ''
              (take 1
                 (map (\<lambda>p. if cp_type p = ''String'' then DQ @ cp_name p @ DQ
                            else if cp_type p = ''Bool'' then ''true''
                            else if cp_type p = ''Int'' \<or> cp_type p = ''Double'' then ''0''
                            else cp_name p)
                    requiredProps))
      in if comp_hasAsyncAction component
         then ''/// '' @ comp_name component @ ''('' @ propsStr @ '') {'' @ NL
                @ ''///     // Handle action'' @ NL @ ''/// }''
         else ''/// '' @ comp_name component @ ''('' @ propsStr @ '')'')"

definition SwiftComponentGenerator_formatDefaultValue ::
  "Runtime \<Rightarrow> jsAny \<Rightarrow> string \<Rightarrow> string" where
  "SwiftComponentGenerator_formatDefaultValue rt v type =
     (if type = ''String'' then DQ @ anyToString (numberToString rt) v @ DQ
      else if type = ''Bool'' then (if truthy v then ''true'' else ''false'')
      else if type = ''Color'' then ''.'' @ anyToString (numberToString rt) v
      else anyToString (numberToString rt) v)"

text \<open>
  The parameter line of one property, the same expression in all three initializers:
  a binding is wrapped in \<^verbatim>\<open>Binding<...>\<close>, and an optional property with a default
  value carries it.
\<close>

definition propertyParam :: "Runtime \<Rightarrow> ParsedComponentProperty \<Rightarrow> string" where
  "propertyParam rt prop =
     (let isBinding = startsWith (cp_type prop) ''Binding<'';
          paramType = (if isBinding then ''Binding<'' @ cp_swiftType prop @ ''>''
                       else cp_swiftType prop);
          defaultVal =
            (case cp_defaultValue prop of
               Some v \<Rightarrow>
                 if \<not> cp_required prop
                 then '' = '' @ SwiftComponentGenerator_formatDefaultValue rt v (cp_type prop)
                 else []
             | None \<Rightarrow> [])
      in ''        '' @ cp_name prop @ '': '' @ paramType @ defaultVal)"

text \<open>The assignment line of one property, the same in all three initializers.\<close>

definition propertyAssignment :: "ParsedComponentProperty \<Rightarrow> string" where
  "propertyAssignment prop =
     (let isBinding = startsWith (cp_type prop) ''Binding<'';
          prefix = (if isBinding then ''_'' else ''self.'')
      in ''        '' @ prefix @ cp_name prop @ '' = '' @ cp_name prop)"

text \<open>The type of an action's closure, as the property list and the initializer write it.\<close>

definition actionSignature :: "ParsedAction \<Rightarrow> string" where
  "actionSignature action =
     (let params = join '', '' (map apar_swiftType (act_parameters action));
          returnType = (if act_returnType action \<noteq> ''Void''
                        then '' -> '' @ act_returnType action else '' -> Void'');
          asyncKeyword = (if act_isAsync action then '' async'' else [])
      in ''('' @ params @ '')'' @ asyncKeyword @ returnType)"

definition SwiftComponentGenerator_generateInitializer ::
  "Runtime \<Rightarrow> ParsedComponent \<Rightarrow> string" where
  "SwiftComponentGenerator_generateInitializer rt component =
     (let params =
            map (propertyParam rt) (comp_properties component)
            @ map (\<lambda>action. ''        '' @ act_name action @ '': @escaping ''
                              @ actionSignature action)
                (comp_actions component)
      in join NL
           ([''    public init('',
             join ('','' @ NL) params,
             ''    ) {'']
            @ map propertyAssignment (comp_properties component)
            @ map (\<lambda>action. ''        self.'' @ act_name action @ '' = '' @ act_name action)
                (comp_actions component)
            @ [''    }'']))"

definition SwiftComponentGenerator_generateAsyncInitializer ::
  "Runtime \<Rightarrow> ParsedComponent \<Rightarrow> string" where
  "SwiftComponentGenerator_generateAsyncInitializer rt component =
     (let params =
            map (propertyParam rt) (comp_properties component)
            @ [''        action: @escaping () async -> Void'']
      in join NL
           ([''    /// Async action initializer'',
             ''    public init('',
             join ('','' @ NL) params,
             ''    ) {'']
            @ map propertyAssignment (comp_properties component)
            @ [''        self.action = action'',
               ''    }'']))"

definition SwiftComponentGenerator_generateSyncInitializer ::
  "Runtime \<Rightarrow> ParsedComponent \<Rightarrow> string" where
  "SwiftComponentGenerator_generateSyncInitializer rt component =
     (let params =
            map (propertyParam rt) (comp_properties component)
            @ [''        action: @escaping () -> Void'']
      in join NL
           ([''    /// Synchronous action initializer'',
             ''    public init('',
             join ('','' @ NL) params,
             ''    ) {'']
            @ map propertyAssignment (comp_properties component)
            @ [''        self.action = {'',
               ''            Task { action() }'',
               ''        }'',
               ''    }'']))"

text \<open>A string or a number tested for truthiness before it is printed.\<close>

definition truthyStr :: "string option \<Rightarrow> bool" where
  "truthyStr a = (strOr a [] \<noteq> [])"

definition truthyNumOpt :: "jsnum option \<Rightarrow> bool" where
  "truthyNumOpt a = (case a of None \<Rightarrow> False | Some n \<Rightarrow> truthyNum n)"

definition SwiftComponentGenerator_generateStyling ::
  "Runtime \<Rightarrow> ParsedComponent \<Rightarrow> string \<Rightarrow> string" where
  "SwiftComponentGenerator_generateStyling rt component indent =
     (let style = comp_style component; num = numberToString rt
      in join NL
           ((if truthyStr (st_font style)
             then [indent @ ''.font(.'' @ strOr (st_font style) [] @ '')''] else [])
            @ (if truthyStr (st_fontWeight style)
               then [indent @ ''.fontWeight(.'' @ strOr (st_fontWeight style) [] @ '')'']
               else [])
            @ (if truthyStr (st_foregroundColor style)
               then [indent @ ''.foregroundStyle(.'' @ strOr (st_foregroundColor style) [] @ '')'']
               else [])
            @ [indent @ ''.padding(.vertical, '' @ num (pad_top (st_padding style)) @ '')'',
               indent @ ''.padding(.horizontal, '' @ num (pad_leading (st_padding style)) @ '')'']
            @ (if truthyStr (st_backgroundColor style)
               then [indent @ ''.background(.'' @ strOr (st_backgroundColor style) [] @ '')'']
               else [])
            @ (if truthyNumOpt (st_cornerRadius style)
               then [indent @ ''.clipShape(RoundedRectangle(cornerRadius: ''
                       @ num (orElse (st_cornerRadius style) (Fin 0)) @ ''))'']
               else [])
            @ (if truthyStr (st_borderColor style) \<and> truthyNumOpt (st_borderWidth style)
               then [indent @ ''.overlay('',
                     indent @ ''    RoundedRectangle(cornerRadius: ''
                       @ num (if truthyNumOpt (st_cornerRadius style)
                              then orElse (st_cornerRadius style) (Fin 0) else Fin 0)
                       @ '')'',
                     indent @ ''        .strokeBorder(.'' @ strOr (st_borderColor style) []
                       @ '', lineWidth: '' @ num (orElse (st_borderWidth style) (Fin 0)) @ '')'',
                     indent @ '')'']
               else [])
            @ (if truthyStr (st_maxWidth style)
               then [indent @ ''.frame(maxWidth: .'' @ strOr (st_maxWidth style) [] @ '')'']
               else [])
            @ (if truthyNumOpt (st_minHeight style)
               then [indent @ ''.frame(minHeight: ''
                       @ num (orElse (st_minHeight style) (Fin 0)) @ '')'']
               else [])))"

definition findProp :: "string list \<Rightarrow> ParsedComponent \<Rightarrow> ParsedComponentProperty option" where
  "findProp names component = find (\<lambda>p. cp_name p \<in> set names) (comp_properties component)"

definition SwiftComponentGenerator_generateBody :: "Runtime \<Rightarrow> ParsedComponent \<Rightarrow> string" where
  "SwiftComponentGenerator_generateBody rt component =
     (let indent = ''        '';
          iconProp = findProp [''icon'', ''iconName''] component;
          titleProp = findProp [''title'', ''text''] component;
          messageProp = findProp [''message''] component
      in join NL
           ((case comp_actions component of
               [] \<Rightarrow> []
             | action # _ \<Rightarrow>
                 [indent @ ''Button {'',
                  (if comp_hasAsyncAction component then indent @ ''    handleAction()''
                   else indent @ ''    '' @ act_name action @ ''()''),
                  indent @ ''} label: {''])
            @ (if comp_hasLoadingState component
               then [indent @ ''    ZStack {'']
                    @ (case iconProp of
                         Some p \<Rightarrow>
                           [indent @ ''        Image(systemName: '' @ cp_name p @ '')'',
                            indent @ ''            .opacity((isLoading || isPerformingAction) ? 0 : 1)'']
                       | None \<Rightarrow>
                           (case titleProp of
                              Some p \<Rightarrow>
                                [indent @ ''        Text('' @ cp_name p @ '')'',
                                 indent @ ''            .opacity((isLoading || isPerformingAction) ? 0 : 1)'']
                            | None \<Rightarrow> []))
                    @ ['''',
                       indent @ ''        if isLoading || isPerformingAction {'',
                       indent @ ''            ProgressView()'',
                       indent @ ''                .progressViewStyle(CircularProgressViewStyle())'',
                       indent @ ''        }'',
                       indent @ ''    }'']
               else (case iconProp of
                       Some p \<Rightarrow> [indent @ ''    Image(systemName: '' @ cp_name p @ '')'']
                     | None \<Rightarrow>
                         (case messageProp of
                            Some p \<Rightarrow> [indent @ ''    Text('' @ cp_name p @ '')'']
                          | None \<Rightarrow>
                              (case titleProp of
                                 Some p \<Rightarrow> [indent @ ''    Text('' @ cp_name p @ '')'']
                               | None \<Rightarrow> []))))
            @ [SwiftComponentGenerator_generateStyling rt component (indent @ ''    '')]
            @ (if length (comp_actions component) > 0
               then [indent @ ''}'', indent @ ''.buttonStyle(.plain)''] else [])
            @ (if comp_hasLoadingState component
               then [indent @ ''.disabled(isLoading || isPerformingAction)'',
                     indent @ ''.opacity((isLoading || isPerformingAction) ? 0.6 : 1.0)'']
               else [])))"

definition SwiftComponentGenerator_generateActionHandler :: "ParsedComponent \<Rightarrow> string" where
  "SwiftComponentGenerator_generateActionHandler component =
     join NL
       [''    private func handleAction() {'',
        ''        Task {'',
        ''            isPerformingAction = true'',
        ''            await action()'',
        ''            isPerformingAction = false'',
        ''        }'',
        ''    }'']"

text \<open>The preview argument of one property: the source's chain of cases, in its order.\<close>

definition previewParam :: "ParsedComponent \<Rightarrow> ParsedComponentProperty \<Rightarrow> string list" where
  "previewParam component prop =
     (let name = cp_name prop; isBinding = startsWith (cp_type prop) ''Binding<''
      in if isBinding then
           (if cp_swiftType prop = ''Bool'' then [name @ '': $previewBool'']
            else [name @ '': $previewText''])
         else if name = ''title'' \<or> name = ''text''
           then [name @ '': '' @ DQ @ comp_name component @ DQ]
         else if name = ''message'' then [name @ '': '' @ DQ @ ''This is a '' @ name @ DQ]
         else if name = ''type'' then [name @ '': '' @ DQ @ ''info'' @ DQ]
         else if name = ''status'' then [name @ '': '' @ DQ @ ''success'' @ DQ]
         else if name = ''icon'' \<or> name = ''iconName'' \<or> name = ''systemIcon''
           then [name @ '': '' @ DQ @ ''star.fill'' @ DQ]
         else if name = ''description'' \<and> cp_type prop = ''String'' \<and> cp_required prop
           then [name @ '': '' @ DQ @ ''Description text'' @ DQ]
         else if name = ''label'' \<and> \<not> cp_required prop
           then [name @ '': '' @ DQ @ ''Button'' @ DQ]
         else if name = ''errorMessage'' \<or> name = ''subtitle'' \<or> name = ''description''
           then [name @ '': nil'']
         else if name = ''options'' \<and> startsWith (cp_swiftType prop) ''[''
           then [name @ '': ['' @ DQ @ ''Option 1'' @ DQ @ '', '' @ DQ @ ''Option 2'' @ DQ
                   @ '', '' @ DQ @ ''Option 3'' @ DQ @ '']'']
         else if cp_type prop = ''String'' \<and> cp_required prop
           then [name @ '': '' @ DQ @ name @ DQ]
         else if cp_type prop = ''String?'' \<and> \<not> cp_required prop then []
         else if cp_type prop = ''Bool'' \<and> cp_required prop then [name @ '': false'']
         else [])"

definition SwiftComponentGenerator_generatePreview :: "ParsedComponent \<Rightarrow> string" where
  "SwiftComponentGenerator_generatePreview component =
     (let bindingProps =
            filter (\<lambda>p. startsWith (cp_type p) ''Binding<'') (comp_properties component);
          hasStringBinding = list_ex (\<lambda>p. cp_swiftType p = ''String'') bindingProps;
          hasBoolBinding = list_ex (\<lambda>p. cp_swiftType p = ''Bool'') bindingProps;
          paramsStr =
            join '', '' (concat (map (previewParam component) (comp_properties component)))
      in join NL
           ([''#Preview('' @ DQ @ comp_name component @ DQ @ '') {'']
            @ (if hasStringBinding
               then [''    @Previewable @State var previewText = '' @ DQ @ DQ] else [])
            @ (if hasBoolBinding
               then [''    @Previewable @State var previewBool = false''] else [])
            @ [''    VStack(spacing: 20) {'']
            @ (if comp_hasAsyncAction component
               then [''        '' @ comp_name component @ ''('' @ paramsStr @ '') {'',
                     ''            // Async action'',
                     ''        }'']
               else if length (comp_actions component) > 0
               then [''        '' @ comp_name component @ ''('' @ paramsStr @ '') {'',
                     ''            print('' @ DQ @ ''Action triggered'' @ DQ @ '')'',
                     ''        }'']
               else [''        '' @ comp_name component @ ''('' @ paramsStr @ '')''])
            @ [''    }'',
               ''    .padding()'',
               ''}'']))"

text \<open>
  The lines of \<^verbatim>\<open>generate\<close> in three parts, so that the initializers stand between what
  is pushed before them and what is pushed after them.
\<close>

definition linesBeforeInitializers :: "Runtime \<Rightarrow> ParsedComponent \<Rightarrow> string \<Rightarrow> string list" where
  "linesBeforeInitializers rt component sourceFile =
     [SwiftComponentGenerator_createHeader rt (comp_name component) sourceFile,
      ''import SwiftUI'']
     @ (if comp_category component = ''forms'' \<or> comp_hasAsyncAction component
        then [''import CuppaCore''] else [])
     @ ['''',
        ''/// '' @ comp_description component,
        ''///'',
        ''/// Features:'']
     @ (if comp_hasAsyncAction component
        then [''/// - Async action support'', ''/// - Synchronous action support''] else [])
     @ (if comp_hasLoadingState component
        then [''/// - Loading state with spinner'', ''/// - Automatic state management'']
        else [])
     @ concat
         (map (\<lambda>prop. if cp_description prop \<noteq> cp_name prop
                       then [''/// - '' @ cp_description prop] else [])
            (comp_properties component))
     @ [''///'',
        ''/// Example:'',
        ''/// '' @ codeFence @ ''swift'',
        SwiftComponentGenerator_generateExampleUsage component,
        ''/// '' @ codeFence,
        ''public struct '' @ comp_name component @ '': View {'',
        ''    // MARK: - Properties'',
        '''']
     @ map (\<lambda>prop.
              let isBinding = startsWith (cp_type prop) ''Binding<'';
                  bindingPrefix = (if isBinding then ''@Binding '' else []);
                  varLet = (if isBinding then ''var'' else ''let'')
              in ''    '' @ bindingPrefix @ varLet @ '' '' @ cp_name prop @ '': ''
                   @ cp_swiftType prop)
         (comp_properties component)
     @ (if comp_hasAsyncAction component
        then [''    @State private var isPerformingAction = false''] else [])
     @ map (\<lambda>action. ''    let '' @ act_name action @ '': '' @ actionSignature action)
         (comp_actions component)
     @ ['''',
        ''    // MARK: - Initialization'',
        '''']"

definition initializerLines :: "Runtime \<Rightarrow> ParsedComponent \<Rightarrow> string list" where
  "initializerLines rt component =
     (if comp_hasAsyncAction component
      then [SwiftComponentGenerator_generateAsyncInitializer rt component,
            '''',
            SwiftComponentGenerator_generateSyncInitializer rt component,
            '''']
      else [SwiftComponentGenerator_generateInitializer rt component,
            ''''])"

definition linesAfterInitializers :: "Runtime \<Rightarrow> ParsedComponent \<Rightarrow> string list" where
  "linesAfterInitializers rt component =
     [''    // MARK: - Body'',
      '''',
      ''    public var body: some View {'',
      SwiftComponentGenerator_generateBody rt component,
      ''    }'']
     @ (if comp_hasAsyncAction component
        then ['''',
              ''    // MARK: - Actions'',
              '''',
              SwiftComponentGenerator_generateActionHandler component]
        else [])
     @ [''}'',
        '''',
        SwiftComponentGenerator_generatePreview component]"

definition SwiftComponentGenerator_generate ::
  "Runtime \<Rightarrow> ParsedComponent \<Rightarrow> string \<Rightarrow> string" where
  "SwiftComponentGenerator_generate rt component sourceFile =
     join NL
       (linesBeforeInitializers rt component sourceFile
        @ initializerLines rt component
        @ linesAfterInitializers rt component)"


section \<open>Kotlin theme generator (kotlin-theme-generator.ts)\<close>

text \<open>
  The parsed theme of design-tokens-types.ts. \<^verbatim>\<open>ParsedColorGroup\<close> and
  \<^verbatim>\<open>ParsedShadow\<close> have the same three fields, and so have the six interfaces with a
  name, a number and a unit; each group shares one record here.
\<close>

record ParsedNamedValue =
  nv_name :: string
  nv_value :: string
  nv_description :: "string option"

type_synonym ParsedColorGroup = ParsedNamedValue
type_synonym ParsedShadow = ParsedNamedValue

record ParsedFontFamily =
  ff_name :: string
  ff_value :: string
  ff_fallback :: "string list option"

record ParsedMeasure =
  ms_name :: string
  ms_value :: jsnum
  ms_unit :: string

type_synonym ParsedFontSize = ParsedMeasure
type_synonym ParsedLineHeight = ParsedMeasure
type_synonym ParsedLetterSpacing = ParsedMeasure
type_synonym ParsedSpacing = ParsedMeasure
type_synonym ParsedBorderRadius = ParsedMeasure
type_synonym ParsedBreakpoint = ParsedMeasure

record ParsedFontWeight =
  fw_name :: string
  fw_value :: tokenValue

record ParsedTypography =
  ty_fontFamilies :: "ParsedFontFamily list"
  ty_fontSizes :: "ParsedFontSize list"
  ty_fontWeights :: "ParsedFontWeight list"
  ty_lineHeights :: "ParsedLineHeight list"
  ty_letterSpacing :: "ParsedLetterSpacing list"

record ParsedTheme =
  th_name :: string
  th_colors :: "ParsedColorGroup list"
  th_typography :: ParsedTypography
  th_spacing :: "ParsedSpacing list"
  th_borderRadius :: "ParsedBorderRadius list"
  th_shadows :: "ParsedShadow list"
  th_breakpoints :: "ParsedBreakpoint list"

definition KotlinThemeGenerator_createHeader :: "Runtime \<Rightarrow> string \<Rightarrow> string" where
  "KotlinThemeGenerator_createHeader rt sourceFile =
     join NL
       [''// Generated by cuppa-cli from '' @ sourceFile,
        ''// Generation date: '' @ today rt,
        ''// DO NOT EDIT MANUALLY - Changes will be overwritten'',
        '''']"

definition KotlinThemeGenerator_hasTypography :: "ParsedTheme \<Rightarrow> bool" where
  "KotlinThemeGenerator_hasTypography theme =
     (length (ty_fontFamilies (th_typography theme)) > 0 \<or>
      length (ty_fontSizes (th_typography theme)) > 0 \<or>
      length (ty_fontWeights (th_typography theme)) > 0)"

text \<open>\<^verbatim>\<open>hexColor.replace('#', '')\<close> removes the first \<^verbatim>\<open>#\<close> only.\<close>

definition KotlinThemeGenerator_convertToKotlinColor :: "string \<Rightarrow> string" where
  "KotlinThemeGenerator_convertToKotlinColor hexColor =
     (let hex0 = remove1 CHR ''#'' hexColor;
          hex = (if length hex0 = 6 then ''FF'' @ hex0 else hex0)
      in ''Color(0x'' @ toUpperCase hex @ '')'')"

definition weightMap :: "string dict" where
  "weightMap =
     [(''thin'', ''FontWeight.Thin''),
      (''extralight'', ''FontWeight.ExtraLight''),
      (''light'', ''FontWeight.Light''),
      (''normal'', ''FontWeight.Normal''),
      (''regular'', ''FontWeight.Normal''),
      (''medium'', ''FontWeight.Medium''),
      (''semibold'', ''FontWeight.SemiBold''),
      (''bold'', ''FontWeight.Bold''),
      (''extrabold'', ''FontWeight.ExtraBold''),
      (''black'', ''FontWeight.Black'')]"

definition KotlinThemeGenerator_convertToKotlinFontWeight :: "Runtime \<Rightarrow> tokenValue \<Rightarrow> string" where
  "KotlinThemeGenerator_convertToKotlinFontWeight rt weight =
     (case weight of
        NumberValue n \<Rightarrow> ''FontWeight('' @ numberToString rt n @ '')''
      | StringValue w \<Rightarrow> strOr (map_of weightMap (toLowerCase w)) ''FontWeight.Normal'')"

text \<open>The fixed table of type-scale names, in the order the source lists them.\<close>

definition typographyMap :: "string dict" where
  "typographyMap =
     [(''displayLarge'', ''displayLarge''),
      (''displayMedium'', ''displayMedium''),
      (''displaySmall'', ''displaySmall''),
      (''headlineLarge'', ''headlineLarge''),
      (''headlineMedium'', ''headlineMedium''),
      (''headlineSmall'', ''headlineSmall''),
      (''titleLarge'', ''titleLarge''),
      (''titleMedium'', ''titleMedium''),
      (''titleSmall'', ''titleSmall''),
      (''bodyLarge'', ''bodyLarge''),
      (''bodyMedium'', ''bodyMedium''),
      (''bodySmall'', ''bodySmall''),
      (''labelLarge'', ''labelLarge''),
      (''labelMedium'', ''labelMedium''),
      (''labelSmall'', ''labelSmall'')]"

text \<open>Everything \<^verbatim>\<open>generate\<close> pushes after the header.\<close>

definition themeLines :: "Runtime \<Rightarrow> ParsedTheme \<Rightarrow> string \<Rightarrow> string list" where
  "themeLines rt theme sourceFile =
     (let num = numberToString rt; typo = th_typography theme
      in [''import androidx.compose.ui.graphics.Color'',
          ''import androidx.compose.ui.unit.dp'',
          ''import androidx.compose.ui.unit.sp'',
          ''import androidx.compose.material3.Typography'',
          ''import androidx.compose.ui.text.TextStyle'',
          ''import androidx.compose.ui.text.font.FontWeight'',
          '''',
          ''/**'',
          '' * Design system theme generated from '' @ sourceFile,
          '' */'',
          ''object '' @ th_name theme @ '' {'',
          '''']
         @ (if length (th_colors theme) > 0
            then [''    // Colors'', ''    object Colors {'']
                 @ concat
                     (map (\<lambda>color.
                             (if truthyStr (nv_description color)
                              then [''        /** '' @ strOr (nv_description color) [] @ '' */'']
                              else [])
                             @ [''        val '' @ capitalize (nv_name color) @ '' = ''
                                  @ KotlinThemeGenerator_convertToKotlinColor (nv_value color)])
                        (th_colors theme))
                 @ [''    }'', '''']
            else [])
         @ (if KotlinThemeGenerator_hasTypography theme
            then [''    // Typography'']
                 @ (if length (ty_fontFamilies typo) > 0
                    then [''    object FontFamilies {'']
                         @ map (\<lambda>font. ''        const val '' @ capitalize (ff_name font)
                                         @ '' = '' @ DQ @ ff_value font @ DQ)
                             (ty_fontFamilies typo)
                         @ [''    }'', '''']
                    else [])
                 @ (if length (ty_fontSizes typo) > 0
                    then [''    object FontSizes {'']
                         @ map (\<lambda>size. ''        val '' @ capitalize (ms_name size) @ '' = ''
                                         @ num (ms_value size) @ ''.sp'')
                             (ty_fontSizes typo)
                         @ [''    }'', '''']
                    else [])
                 @ (if length (ty_fontWeights typo) > 0
                    then [''    object FontWeights {'']
                         @ map (\<lambda>weight. ''        val '' @ capitalize (fw_name weight) @ '' = ''
                                   @ KotlinThemeGenerator_convertToKotlinFontWeight rt (fw_value weight))
                             (ty_fontWeights typo)
                         @ [''    }'', '''']
                    else [])
            else [])
         @ (if length (th_spacing theme) > 0
            then [''    // Spacing'', ''    object Spacing {'']
                 @ map (\<lambda>space. ''        val '' @ capitalize (ms_name space) @ '' = ''
                                  @ num (ms_value space) @ ''.dp'')
                     (th_spacing theme)
                 @ [''    }'', '''']
            else [])
         @ (if length (th_borderRadius theme) > 0
            then [''    // Border Radius'', ''    object BorderRadius {'']
                 @ map (\<lambda>radius. ''        val '' @ capitalize (ms_name radius) @ '' = ''
                                   @ num (ms_value radius) @ ''.dp'')
                     (th_borderRadius theme)
                 @ [''    }'', '''']
            else [])
         @ (if length (th_shadows theme) > 0
            then [''    // Shadows'', ''    object Shadows {'']
                 @ concat
                     (map (\<lambda>shadow.
                             (if truthyStr (nv_description shadow)
                              then [''        /** '' @ strOr (nv_description shadow) [] @ '' */'']
                              else [])
                             @ [''        const val '' @ capitalize (nv_name shadow) @ '' = ''
                                  @ DQ @ nv_value shadow @ DQ])
                        (th_shadows theme))
                 @ [''    }'', '''']
            else [])
         @ [''}'', '''']
         @ (if length (ty_fontSizes typo) > 0
            then (let entries =
                        concat
                          (map (\<lambda>(key, v).
                                  case find (\<lambda>s. toLowerCase (ms_name s) = toLowerCase key)
                                         (ty_fontSizes typo) of
                                    Some matchingSize \<Rightarrow>
                                      [''    '' @ v @ '' = TextStyle(fontSize = '' @ th_name theme
                                         @ ''.FontSizes.'' @ capitalize (ms_name matchingSize) @ '')'']
                                  | None \<Rightarrow> [])
                             typographyMap)
                  in [''/**'',
                      '' * Material 3 Typography configuration'',
                      '' */'',
                      ''val '' @ th_name theme @ ''Typography = Typography('']
                     @ (if length entries > 0 then [join ('','' @ NL) entries] else [])
                     @ ['')'', ''''])
            else []))"

definition KotlinThemeGenerator_generate :: "Runtime \<Rightarrow> ParsedTheme \<Rightarrow> string \<Rightarrow> string" where
  "KotlinThemeGenerator_generate rt theme sourceFile =
     join NL (KotlinThemeGenerator_createHeader rt sourceFile # themeLines rt theme sourceFile)"


section \<open>Notions used to state the properties\<close>

text \<open>
  A document with its cookie parameters deleted, at path level and at operation level;
  everything else stays as it is.
\<close>

definition withoutCookies :: "OpenAPIParameter list \<Rightarrow> OpenAPIParameter list" where
  "withoutCookies ps = filter (\<lambda>p. par_in p \<noteq> InCookie) ps"

definition operationWithoutCookies :: "OpenAPIOperation \<Rightarrow> OpenAPIOperation" where
  "operationWithoutCookies operation =
     operation \<lparr> op_parameters := map_option withoutCookies (op_parameters operation) \<rparr>"

definition pathWithoutCookies :: "OpenAPIPath \<Rightarrow> OpenAPIPath" where
  "pathWithoutCookies pathItem =
     \<lparr> path_get = map_option operationWithoutCookies (path_get pathItem),
       path_post = map_option operationWithoutCookies (path_post pathItem),
       path_put = map_option operationWithoutCookies (path_put pathItem),
       path_patch = map_option operationWithoutCookies (path_patch pathItem),
       path_delete = map_option operationWithoutCookies (path_delete pathItem),
       path_parameters = map_option withoutCookies (path_parameters pathItem) \<rparr>"

definition specWithoutCookies :: "OpenAPISpec \<Rightarrow> OpenAPISpec" where
  "specWithoutCookies spec =
     spec \<lparr> spec_paths := map (\<lambda>(path, pathItem). (path, pathWithoutCookies pathItem))
                              (spec_paths spec) \<rparr>"

text \<open>
  The path made of the given segments, each after a slash, and the rendering of one
  segment in a derived operation id as the specification words it: a segment
  \<^verbatim>\<open>{p}\<close> becomes \<^verbatim>\<open>By\<close> and the capitalized \<^verbatim>\<open>p\<close>, any other segment is
  capitalized.
\<close>

definition pathOf :: "string list \<Rightarrow> string" where
  "pathOf segments = concat (map (\<lambda>s. CHR ''/'' # s) segments)"

definition operationIdSegment :: "string \<Rightarrow> string" where
  "operationIdSegment seg =
     (case seg of
        [] \<Rightarrow> []
      | c # rest \<Rightarrow>
          if c = CHR ''{'' \<and> rest \<noteq> [] \<and> last rest = CHR ''}''
          then ''By'' @ capitalize (butlast rest)
          else capitalize seg)"




text \<open>
  A component as the parser returns it has the declared type when every
  \<^verbatim>\<open>swiftType\<close> in it is a string; it is then a \<^verbatim>\<open>ParsedComponent\<close>, the same
  component with those strings.
\<close>

definition asText :: "swiftTypeValue \<Rightarrow> string option" where
  "asText v = (case v of SwiftText s \<Rightarrow> Some s | PrototypeMember name \<Rightarrow> None)"

definition asParsedProperty ::
  "swiftTypeValue ParsedComponentPropertyOf \<Rightarrow> ParsedComponentProperty option" where
  "asParsedProperty prop =
     map_option
       (\<lambda>s. \<lparr> cp_name = cp_name prop, cp_type = cp_type prop, cp_swiftType = s,
               cp_required = cp_required prop, cp_defaultValue = cp_defaultValue prop,
               cp_description = cp_description prop, cp_isBinding = cp_isBinding prop \<rparr>)
       (asText (cp_swiftType prop))"

definition asParsedParameter ::
  "swiftTypeValue ParsedActionParameterOf \<Rightarrow> ParsedActionParameter option" where
  "asParsedParameter param =
     map_option
       (\<lambda>s. \<lparr> apar_name = apar_name param, apar_type = apar_type param, apar_swiftType = s,
               apar_label = apar_label param \<rparr>)
       (asText (apar_swiftType param))"

definition asParsedAction :: "swiftTypeValue ParsedActionOf \<Rightarrow> ParsedAction option" where
  "asParsedAction action =
     map_option
       (\<lambda>params. \<lparr> act_name = act_name action, act_isAsync = act_isAsync action,
                    act_parameters = params, act_returnType = act_returnType action \<rparr>)
       (those (map asParsedParameter (act_parameters action)))"

definition asParsedComponent :: "swiftTypeValue ParsedComponentOf \<Rightarrow> ParsedComponent option" where
  "asParsedComponent component =
     (case those (map asParsedProperty (comp_properties component)) of
        None \<Rightarrow> None
      | Some properties \<Rightarrow>
          (case those (map asParsedAction (comp_actions component)) of
             None \<Rightarrow> None
           | Some actions \<Rightarrow>
               Some \<lparr> comp_name = comp_name component,
                      comp_category = comp_category component,
                      comp_description = comp_description component,
                      comp_properties = properties,
                      comp_style = comp_style component,
                      comp_states = comp_states component,
                      comp_actions = actions,
                      comp_slots = comp_slots component,
                      comp_hasAsyncAction = comp_hasAsyncAction component,
                      comp_hasLoadingState = comp_hasLoadingState component \<rparr>))"


section \<open>Example inputs\<close>

text \<open>
  A schema with a required plain property, an optional one, and a required one that is
  nullable; an array property without items; a schema whose root is an array; a schema
  without a title.
\<close>

definition stringProp :: JSONSchemaProperty where
  "stringProp = JSONSchemaProperty (TypeName ''string'') None None None None None"

definition userSchema :: JSONSchema where
  "userSchema =
     \<lparr> schema_title = Some ''User'',
       schema_description = None,
       schema_type = ''object'',
       schema_properties =
         Some [(''id'', stringProp),
               (''age'', JSONSchemaProperty (TypeName ''integer'') None None None None None),
               (''email'', JSONSchemaProperty (TypeName ''string'') None None None None (Some True))],
       schema_required = Some [''id'', ''email''] \<rparr>"

definition tagsSchema :: JSONSchema where
  "tagsSchema =
     \<lparr> schema_title = Some ''Post'',
       schema_description = None,
       schema_type = ''object'',
       schema_properties =
         Some [(''tags'', JSONSchemaProperty (TypeName ''array'') None None None None None),
               (''names'', JSONSchemaProperty (TypeName ''array'') None None (Some stringProp) None None)],
       schema_required = None \<rparr>"

definition listSchema :: JSONSchema where
  "listSchema =
     \<lparr> schema_title = Some ''Users'',
       schema_description = None,
       schema_type = ''array'',
       schema_properties = None,
       schema_required = None \<rparr>"

definition untitledSchema :: JSONSchema where
  "untitledSchema =
     \<lparr> schema_title = None,
       schema_description = None,
       schema_type = ''object'',
       schema_properties = Some [(''id'', stringProp)],
       schema_required = None \<rparr>"

text \<open>A plugin spec with one provider, and one without providers.\<close>

definition paymentSpec :: PluginSpec where
  "paymentSpec =
     \<lparr> plugin_name = ''Payment'',
       plugin_identifier = ''com.cuppa.payment'',
       plugin_version = ''1.0.0'',
       plugin_description = None,
       plugin_author = None,
       plugin_dependencies = None,
       plugin_configuration = None,
       plugin_methods = None,
       plugin_models = None,
       plugin_providers =
         Some [\<lparr> prov_name = ''Stripe'', prov_description = None, prov_protocol = None \<rparr>] \<rparr>"

definition pushSpec :: PluginSpec where
  "pushSpec = paymentSpec \<lparr> plugin_name := ''Push'', plugin_providers := Some [] \<rparr>"


text \<open>
  An API with one path, \<^verbatim>\<open>/pets/{id}\<close>, that shares a header parameter and a cookie
  parameter among its operations and has a \<^verbatim>\<open>get\<close> operation without an operation id,
  with a path parameter, a cookie parameter and a query parameter of its own.
\<close>

definition stringSchema :: OpenAPISchema where
  "stringSchema = OpenAPISchema (Some ''string'') None None None None None None"

definition param :: "string \<Rightarrow> paramIn \<Rightarrow> OpenAPIParameter" where
  "param name loc =
     \<lparr> par_name = name, par_in = loc, par_description = None, par_required = None,
       par_schema = stringSchema \<rparr>"

definition petOperation :: OpenAPIOperation where
  "petOperation =
     \<lparr> op_operationId = None, op_summary = None, op_description = None, op_tags = None,
       op_parameters =
         Some [param ''id'' InPath, param ''session'' InCookie, param ''limit'' InQuery],
       op_requestBody = None,
       op_responses = [] \<rparr>"

definition petPath :: OpenAPIPath where
  "petPath =
     \<lparr> path_get = Some petOperation, path_post = None, path_put = None, path_patch = None,
       path_delete = None,
       path_parameters = Some [param ''X-Trace'' InHeader, param ''tracking'' InCookie] \<rparr>"

definition petSpec :: OpenAPISpec where
  "petSpec =
     \<lparr> spec_openapi = ''3.0.0'',
       spec_info = \<lparr> info_title = ''Pet Store'', info_version = ''1.0'', info_description = None \<rparr>,
       spec_servers = None,
       spec_paths = [(''/pets/{id}'', petPath)],
       spec_components = None \<rparr>"


text \<open>
  A runtime for the examples. Its number printer writes the special values and integers
  below \<^verbatim>\<open>10^21\<close> as JavaScript writes them; the examples hold no other numbers.
  Its member printer writes a member as a built-in function or a plain object is
  written.
\<close>

fun digitsOfNat :: "nat \<Rightarrow> nat \<Rightarrow> string" where
  "digitsOfNat 0 n = []"
| "digitsOfNat (Suc fuel) n =
     (if n < 10 then [digits ! n]
      else digitsOfNat fuel (n div 10) @ [digits ! (n mod 10)])"

definition integerToString :: "jsnum \<Rightarrow> string" where
  "integerToString n =
     (case n of
        NaN \<Rightarrow> ''NaN''
      | PosInfinity \<Rightarrow> ''Infinity''
      | NegInfinity \<Rightarrow> ''-Infinity''
      | Fin r \<Rightarrow> (if r < 0 then ''-'' else []) @ digitsOfNat 21 (nat \<bar>\<lfloor>r\<rfloor>\<bar>))"

definition exampleRuntime :: Runtime where
  "exampleRuntime =
     \<lparr> numberToString = integerToString,
       today = ''2025-11-15'',
       memberToString =
         (\<lambda>name. if name = ''__proto__'' then ''[object Object]''
                  else if name = ''constructor'' then ''function Object() { [native code] }''
                  else ''function '' @ name @ ''() { [native code] }'') \<rparr>"


definition labelSpec :: ComponentSpec where
  "labelSpec =
     \<lparr> cspec_component = ''CuppaLabel'',
       cspec_category = ''text'',
       cspec_description = None,
       cspec_properties =
         [\<lparr> cprop_name = ''text'', cprop_type = ''String'', cprop_required = True,
            cprop_defaultValue = None, cprop_description = None \<rparr>],
       cspec_style = None,
       cspec_states = None,
       cspec_actions = None,
       cspec_slots = None \<rparr>"


definition pickerSpec :: ComponentSpec where
  "pickerSpec =
     \<lparr> cspec_component = ''CuppaPicker'',
       cspec_category = ''forms'',
       cspec_description = None,
       cspec_properties =
         [\<lparr> cprop_name = ''options'', cprop_type = ''toString'', cprop_required = True,
            cprop_defaultValue = None, cprop_description = None \<rparr>],
       cspec_style = None,
       cspec_states = None,
       cspec_actions =
         Some [\<lparr> cact_name = ''action'', cact_type = ''async'', cact_parameters = [],
                 cact_returnType = None \<rparr>],
       cspec_slots = None \<rparr>"

text \<open>The parsed button, label and toggle, as the parser returns them.\<close>

definition parsedStyleDefault :: ParsedStyle where
  "parsedStyleDefault =
     \<lparr> st_backgroundColor = None, st_foregroundColor = None, st_borderColor = None,
       st_borderWidth = None, st_cornerRadius = None, st_padding = defaultPadding,
       st_font = None, st_fontWeight = None, st_minHeight = None, st_maxWidth = None \<rparr>"

definition buttonComponent :: ParsedComponent where
  "buttonComponent =
     \<lparr> comp_name = ''CuppaButton'',
       comp_category = ''buttons'',
       comp_description = ''A button that runs an action'',
       comp_properties =
         [\<lparr> cp_name = ''title'', cp_type = ''String'', cp_swiftType = ''String'',
            cp_required = True, cp_defaultValue = None, cp_description = ''Button title'',
            cp_isBinding = False \<rparr>],
       comp_style = parsedStyleDefault,
       comp_states = [],
       comp_actions =
         [\<lparr> act_name = ''action'', act_isAsync = True, act_parameters = [],
            act_returnType = ''Void'' \<rparr>],
       comp_slots = [],
       comp_hasAsyncAction = True,
       comp_hasLoadingState = False \<rparr>"

definition labelComponent :: ParsedComponent where
  "labelComponent =
     \<lparr> comp_name = ''CuppaLabel'',
       comp_category = ''text'',
       comp_description = ''CuppaLabel'',
       comp_properties =
         [\<lparr> cp_name = ''text'', cp_type = ''String'', cp_swiftType = ''String'',
            cp_required = True, cp_defaultValue = None, cp_description = ''text'',
            cp_isBinding = False \<rparr>],
       comp_style = parsedStyleDefault,
       comp_states = [],
       comp_actions = [],
       comp_slots = [],
       comp_hasAsyncAction = False,
       comp_hasLoadingState = False \<rparr>"


text \<open>A theme with one color and one spacing.\<close>

definition exampleTheme :: ParsedTheme where
  "exampleTheme =
     \<lparr> th_name = ''Theme'',
       th_colors = [\<lparr> nv_name = ''primary'', nv_value = ''#ff8800'', nv_description = None \<rparr>],
       th_typography =
         \<lparr> ty_fontFamilies = [], ty_fontSizes = [], ty_fontWeights = [], ty_lineHeights = [],
           ty_letterSpacing = [] \<rparr>,
       th_spacing = [\<lparr> ms_name = ''small'', ms_value = Fin 8, ms_unit = ''px'' \<rparr>],
       th_borderRadius = [],
       th_shadows = [],
       th_breakpoints = [] \<rparr>"


section \<open>Model parser: optionality, arrays, errors\<close>

lemma parse_object:
  "schema_type schema = ''object'' \<Longrightarrow>
   JSONSchemaParser_parse schema =
     Inr \<lparr> pm_name = strOr (schema_title schema) ''UnnamedModel'',
           pm_description = schema_description schema,
           pm_properties =
             JSONSchemaParser_parseProperties (orElse (schema_properties schema) [])
               (orElse (schema_required schema) []) \<rparr>"
  by (simp add: JSONSchemaParser_parse_def)

lemma parseProperties_nth:
  "i < length ps \<Longrightarrow>
   JSONSchemaParser_parseProperties ps req ! i =
     JSONSchemaParser_parseProperty (fst (ps ! i)) (snd (ps ! i)) (fst (ps ! i) \<in> set req)"
  by (simp add: JSONSchemaParser_parseProperties_def case_prod_beta)

lemma parseProperties_length: "length (JSONSchemaParser_parseProperties ps req) = length ps"
  by (simp add: JSONSchemaParser_parseProperties_def)

text \<open>Scenario A of the specification, with a third property that is required and nullable.\<close>

lemma parse_userSchema:
  "JSONSchemaParser_parse userSchema =
     Inr \<lparr> pm_name = ''User'', pm_description = None,
           pm_properties =
             [\<lparr> pp_name = ''id'', pp_type = ''string'', pp_description = None,
                pp_optional = False, pp_isArray = False, pp_format = None,
                pp_defaultValue = None \<rparr>,
              \<lparr> pp_name = ''age'', pp_type = ''integer'', pp_description = None,
                pp_optional = True, pp_isArray = False, pp_format = None,
                pp_defaultValue = None \<rparr>,
              \<lparr> pp_name = ''email'', pp_type = ''string'', pp_description = None,
                pp_optional = True, pp_isArray = False, pp_format = None,
                pp_defaultValue = None \<rparr>] \<rparr>"
  by (simp add: JSONSchemaParser_parse_def userSchema_def stringProp_def strOr_def orElse_def
      JSONSchemaParser_parseProperties_def JSONSchemaParser_parseProperty_def
      JSONSchemaParser_resolveType_def)

text \<open>
  C2. In an object-rooted schema the parser returns one parsed property per declared
  property, in order and under the declared name, and its optional flag is true exactly
  when the name is missing from the required list or the property carries
  \<^verbatim>\<open>nullable: true\<close>.
\<close>

theorem optional_iff_not_required_or_nullable:
  assumes "schema_type schema = ''object''"
  shows "\<exists>m. JSONSchemaParser_parse schema = Inr m \<and>
           length (pm_properties m) = length (orElse (schema_properties schema) []) \<and>
           (\<forall>i < length (orElse (schema_properties schema) []).
              pp_name (pm_properties m ! i) = fst (orElse (schema_properties schema) [] ! i) \<and>
              pp_optional (pm_properties m ! i) =
                (fst (orElse (schema_properties schema) [] ! i)
                   \<notin> set (orElse (schema_required schema) []) \<or>
                 prop_nullable (snd (orElse (schema_properties schema) [] ! i)) = Some True))"
  using assms
  by (simp add: parse_object parseProperties_length parseProperties_nth
      JSONSchemaParser_parseProperty_def Let_def)

theorem optional_iff_not_required_or_nullable_witness:
  "schema_type userSchema = ''object'' \<and>
   (\<exists>m. JSONSchemaParser_parse userSchema = Inr m \<and>
        length (pm_properties m) = length (orElse (schema_properties userSchema) []) \<and>
        (\<forall>i < length (orElse (schema_properties userSchema) []).
           pp_name (pm_properties m ! i) = fst (orElse (schema_properties userSchema) [] ! i) \<and>
           pp_optional (pm_properties m ! i) =
             (fst (orElse (schema_properties userSchema) [] ! i)
                \<notin> set (orElse (schema_required userSchema) []) \<or>
              prop_nullable (snd (orElse (schema_properties userSchema) [] ! i)) = Some True)))"
proof -
  have h: "schema_type userSchema = ''object''"
    by (simp add: userSchema_def)
  from h optional_iff_not_required_or_nullable [OF h] show ?thesis
    by (rule conjI)
qed

text \<open>
  C8. A schema whose root type is not \<^verbatim>\<open>"object"\<close> makes the parser fail with its
  unsupported-schema error; a schema whose root type is \<^verbatim>\<open>"object"\<close> is parsed into
  a model.
\<close>

theorem parse_fails_iff_not_object:
  "(schema_type schema \<noteq> ''object'' \<longrightarrow>
      JSONSchemaParser_parse schema =
        Inl (Error ''Only object schemas are supported for model generation'')) \<and>
   (schema_type schema = ''object'' \<longrightarrow> (\<exists>m. JSONSchemaParser_parse schema = Inr m))"
  by (simp add: JSONSchemaParser_parse_def)

theorem parse_fails_iff_not_object_witness:
  "schema_type listSchema \<noteq> ''object'' \<and>
   JSONSchemaParser_parse listSchema =
     Inl (Error ''Only object schemas are supported for model generation'') \<and>
   schema_type userSchema = ''object'' \<and>
   (\<exists>m. JSONSchemaParser_parse userSchema = Inr m)"
proof -
  have a: "schema_type listSchema \<noteq> ''object''"
    by (simp add: listSchema_def)
  have b: "schema_type userSchema = ''object''"
    by (simp add: userSchema_def)
  from a b parse_fails_iff_not_object [of listSchema] parse_fails_iff_not_object [of userSchema]
  show ?thesis by blast
qed

text \<open>
  C10. An object-rooted schema without a title is parsed, and the model is named
  \<^verbatim>\<open>UnnamedModel\<close>.
\<close>

theorem untitled_schema_is_UnnamedModel:
  assumes "schema_type schema = ''object''" and "schema_title schema = None"
  shows "\<exists>m. JSONSchemaParser_parse schema = Inr m \<and> pm_name m = ''UnnamedModel''"
  using assms by (simp add: parse_object strOr_def)

theorem untitled_schema_is_UnnamedModel_witness:
  "schema_type untitledSchema = ''object'' \<and> schema_title untitledSchema = None \<and>
   (\<exists>m. JSONSchemaParser_parse untitledSchema = Inr m \<and> pm_name m = ''UnnamedModel'')"
proof -
  have a: "schema_type untitledSchema = ''object''"
    by (simp add: untitledSchema_def)
  have b: "schema_title untitledSchema = None"
    by (simp add: untitledSchema_def)
  from a b untitled_schema_is_UnnamedModel [OF a b] show ?thesis
    by blast
qed

text \<open>
  C4, as the claim states it, fails: an array property that declares no items keeps the
  type \<^verbatim>\<open>"array"\<close> while its array flag is set. The first property of this schema is
  such a property.
\<close>

theorem array_without_items_counterexample:
  "JSONSchemaParser_parse tagsSchema =
     Inr \<lparr> pm_name = ''Post'', pm_description = None,
           pm_properties =
             [\<lparr> pp_name = ''tags'', pp_type = ''array'', pp_description = None,
                pp_optional = True, pp_isArray = True, pp_format = None,
                pp_defaultValue = None \<rparr>,
              \<lparr> pp_name = ''names'', pp_type = ''string'', pp_description = None,
                pp_optional = True, pp_isArray = True, pp_format = None,
                pp_defaultValue = None \<rparr>] \<rparr>"
  by (simp add: JSONSchemaParser_parse_def tagsSchema_def stringProp_def strOr_def orElse_def
      JSONSchemaParser_parseProperties_def JSONSchemaParser_parseProperty_def
      JSONSchemaParser_resolveType_def)

text \<open>
  C4, amended. In an object-rooted schema every parsed property whose array flag is set
  has, as its type, the resolved type of the declared items when the property declares
  items, and \<^verbatim>\<open>"array"\<close> when it declares none.
\<close>

theorem array_type_is_items_type:
  assumes "schema_type schema = ''object''"
  shows "\<exists>m. JSONSchemaParser_parse schema = Inr m \<and>
           length (pm_properties m) = length (orElse (schema_properties schema) []) \<and>
           (\<forall>i < length (orElse (schema_properties schema) []).
              pp_isArray (pm_properties m ! i) \<longrightarrow>
              pp_type (pm_properties m ! i) =
                (case prop_items (snd (orElse (schema_properties schema) [] ! i)) of
                   Some items \<Rightarrow> JSONSchemaParser_resolveType items
                 | None \<Rightarrow> ''array''))"
  using assms
  by (simp add: parse_object parseProperties_length parseProperties_nth
      JSONSchemaParser_parseProperty_def Let_def split: option.splits)

theorem array_type_is_items_type_witness:
  "schema_type tagsSchema = ''object'' \<and>
   (\<exists>m. JSONSchemaParser_parse tagsSchema = Inr m \<and>
        length (pm_properties m) = length (orElse (schema_properties tagsSchema) []) \<and>
        (\<forall>i < length (orElse (schema_properties tagsSchema) []).
           pp_isArray (pm_properties m ! i) \<longrightarrow>
           pp_type (pm_properties m ! i) =
             (case prop_items (snd (orElse (schema_properties tagsSchema) [] ! i)) of
                Some items \<Rightarrow> JSONSchemaParser_resolveType items
              | None \<Rightarrow> ''array'')))"
proof -
  have h: "schema_type tagsSchema = ''object''"
    by (simp add: tagsSchema_def)
  from h array_type_is_items_type [OF h] show ?thesis
    by (rule conjI)
qed


section \<open>Plugin parser: derived names\<close>

text \<open>
  C1, as the claim states it, fails on the plugin name: the parser puts \<^verbatim>\<open>Cuppa\<close> in
  front, so the plugin named \<^verbatim>\<open>Payment\<close> becomes \<^verbatim>\<open>CuppaPaymentPlugin\<close>, not
  \<^verbatim>\<open>PaymentPlugin\<close>.
\<close>

theorem plugin_name_counterexample:
  "pl_name (PluginSpecParser_parse paymentSpec) = ''CuppaPaymentPlugin'' \<and>
   pl_name (PluginSpecParser_parse paymentSpec) \<noteq> plugin_name paymentSpec @ ''Plugin''"
  by (simp add: PluginSpecParser_parse_def paymentSpec_def Let_def)

text \<open>
  C1, amended. For a plugin spec named N the parsed plugin is named \<^verbatim>\<open>Cuppa\<close>N\<^verbatim>\<open>Plugin\<close>,
  its manager N\<^verbatim>\<open>Manager\<close>, and its protocol N\<^verbatim>\<open>Provider\<close> exactly when the spec
  declares at least one provider; otherwise the protocol name is absent.
\<close>

theorem plugin_derived_names:
  "pl_name (PluginSpecParser_parse spec) = ''Cuppa'' @ plugin_name spec @ ''Plugin'' \<and>
   pl_managerName (PluginSpecParser_parse spec) = plugin_name spec @ ''Manager'' \<and>
   pl_protocolName (PluginSpecParser_parse spec) =
     (if orElse (plugin_providers spec) [] \<noteq> []
      then Some (plugin_name spec @ ''Provider'') else None)"
  by (simp add: PluginSpecParser_parse_def Let_def orElse_def split: option.splits)

theorem plugin_derived_names_witness:
  "pl_name (PluginSpecParser_parse paymentSpec) = ''CuppaPaymentPlugin'' \<and>
   pl_managerName (PluginSpecParser_parse paymentSpec) = ''PaymentManager'' \<and>
   pl_protocolName (PluginSpecParser_parse paymentSpec) = Some ''PaymentProvider'' \<and>
   pl_name (PluginSpecParser_parse pushSpec) = ''CuppaPushPlugin'' \<and>
   pl_managerName (PluginSpecParser_parse pushSpec) = ''PushManager'' \<and>
   pl_protocolName (PluginSpecParser_parse pushSpec) = None"
  using plugin_derived_names [of paymentSpec] plugin_derived_names [of pushSpec]
  by (simp add: paymentSpec_def pushSpec_def orElse_def)


section \<open>OpenAPI parser: parameter buckets and derived operation ids\<close>

lemma filter_buckets_length:
  "length (filter (\<lambda>p. par_in p = InPath) ps) + length (filter (\<lambda>p. par_in p = InQuery) ps)
     + length (filter (\<lambda>p. par_in p = InHeader) ps) = length (withoutCookies ps)"
  by (induction ps) (auto simp: withoutCookies_def intro: paramIn.exhaust)

lemma filter_withoutCookies:
  "loc \<noteq> InCookie \<Longrightarrow>
   filter (\<lambda>p. par_in p = loc) (withoutCookies ps) = filter (\<lambda>p. par_in p = loc) ps"
  by (induction ps) (auto simp: withoutCookies_def)

lemma parseOperation_withoutCookies:
  "OpenAPIParser_parseOperation method path (operationWithoutCookies operation)
     (withoutCookies pathParams) =
   OpenAPIParser_parseOperation method path operation pathParams"
proof -
  have "withoutCookies pathParams @ orElse (map_option withoutCookies (op_parameters operation)) []
          = withoutCookies (pathParams @ orElse (op_parameters operation) [])"
    by (cases "op_parameters operation") (simp_all add: orElse_def withoutCookies_def)
  then show ?thesis
    by (simp add: OpenAPIParser_parseOperation_def operationWithoutCookies_def Let_def
        filter_withoutCookies)
qed

lemma parseEndpoints_withoutCookies:
  "OpenAPIParser_parseEndpoints (map (\<lambda>(path, pathItem). (path, pathWithoutCookies pathItem)) paths)
     = OpenAPIParser_parseEndpoints paths"
proof -
  have opt: "orElse (map_option withoutCookies a) [] = withoutCookies (orElse a [])" for a
    by (cases a) (simp_all add: orElse_def withoutCookies_def)
  have one: "case_option [] (\<lambda>operation. [OpenAPIParser_parseOperation m p operation (withoutCookies pps)])
               (map_option operationWithoutCookies a)
             = case_option [] (\<lambda>operation. [OpenAPIParser_parseOperation m p operation pps]) a"
    for a m p pps
    by (cases a) (simp_all add: parseOperation_withoutCookies)
  have item: "concat (map (\<lambda>(method, operationOf).
                 case operationOf (pathWithoutCookies pathItem) of
                   Some operation \<Rightarrow>
                     [OpenAPIParser_parseOperation method path operation
                        (orElse (path_parameters (pathWithoutCookies pathItem)) [])]
                 | None \<Rightarrow> []) methods)
              = concat (map (\<lambda>(method, operationOf).
                 case operationOf pathItem of
                   Some operation \<Rightarrow>
                     [OpenAPIParser_parseOperation method path operation
                        (orElse (path_parameters pathItem) [])]
                 | None \<Rightarrow> []) methods)" for path pathItem
  proof -
    have sel: "path_get (pathWithoutCookies pathItem) = map_option operationWithoutCookies (path_get pathItem)"
      "path_post (pathWithoutCookies pathItem) = map_option operationWithoutCookies (path_post pathItem)"
      "path_put (pathWithoutCookies pathItem) = map_option operationWithoutCookies (path_put pathItem)"
      "path_patch (pathWithoutCookies pathItem) = map_option operationWithoutCookies (path_patch pathItem)"
      "path_delete (pathWithoutCookies pathItem) = map_option operationWithoutCookies (path_delete pathItem)"
      "orElse (path_parameters (pathWithoutCookies pathItem)) [] = withoutCookies (orElse (path_parameters pathItem) [])"
      by (simp_all add: pathWithoutCookies_def opt)
    show ?thesis
      unfolding methods_def
      by (simp add: sel(1-5) split: option.splits) (simp add: sel(6) parseOperation_withoutCookies)
  qed
  show ?thesis
    unfolding OpenAPIParser_parseEndpoints_def
    by (rule arg_cong [where f = concat], simp add: case_prod_beta item [unfolded case_prod_beta] cong: option.case_cong)
       (simp add: item)
qed

text \<open>
  C3. Cookie parameters reach no bucket. The three buckets of an endpoint are the parsed
  path, query and header parameters of the path-level and operation-level parameters,
  in order; together they hold exactly as many entries as there are parameters outside
  cookies; and deleting every cookie parameter from a document, at both levels, leaves
  the whole parse result unchanged.
\<close>

theorem cookie_parameters_not_surfaced:
  "ep_pathParams (OpenAPIParser_parseOperation method path operation pathParams) =
     map OpenAPIParser_parseParameter
       (filter (\<lambda>p. par_in p = InPath) (pathParams @ orElse (op_parameters operation) [])) \<and>
   ep_queryParams (OpenAPIParser_parseOperation method path operation pathParams) =
     map OpenAPIParser_parseParameter
       (filter (\<lambda>p. par_in p = InQuery) (pathParams @ orElse (op_parameters operation) [])) \<and>
   ep_headerParams (OpenAPIParser_parseOperation method path operation pathParams) =
     map OpenAPIParser_parseParameter
       (filter (\<lambda>p. par_in p = InHeader) (pathParams @ orElse (op_parameters operation) [])) \<and>
   length (ep_pathParams (OpenAPIParser_parseOperation method path operation pathParams))
     + length (ep_queryParams (OpenAPIParser_parseOperation method path operation pathParams))
     + length (ep_headerParams (OpenAPIParser_parseOperation method path operation pathParams))
     = length (withoutCookies (pathParams @ orElse (op_parameters operation) [])) \<and>
   OpenAPIParser_parse (specWithoutCookies spec) = OpenAPIParser_parse spec"
proof -
  have "OpenAPIParser_parse (specWithoutCookies spec) = OpenAPIParser_parse spec"
    by (simp add: OpenAPIParser_parse_def specWithoutCookies_def parseEndpoints_withoutCookies)
  then show ?thesis
    using filter_buckets_length [of "pathParams @ orElse (op_parameters operation) []"]
    by (simp add: OpenAPIParser_parseOperation_def Let_def)
qed

theorem cookie_parameters_not_surfaced_witness:
  "map (\<lambda>e. (map ppar_name (ep_pathParams e), map ppar_name (ep_queryParams e),
              map ppar_name (ep_headerParams e)))
     (api_endpoints (OpenAPIParser_parse petSpec))
     = [([''id''], [''limit''], [''X-Trace''])] \<and>
   length (withoutCookies (orElse (path_parameters petPath) [] @ orElse (op_parameters petOperation) []))
     = 3 \<and>
   OpenAPIParser_parse (specWithoutCookies petSpec) = OpenAPIParser_parse petSpec"
proof -
  have a: "api_endpoints (OpenAPIParser_parse petSpec) =
             [OpenAPIParser_parseOperation ''get'' ''/pets/{id}'' petOperation
                (orElse (path_parameters petPath) [])]"
    by (simp add: OpenAPIParser_parse_def petSpec_def OpenAPIParser_parseEndpoints_def
        methods_def petPath_def)
  have b: "orElse (path_parameters petPath) [] @ orElse (op_parameters petOperation) [] =
             [param ''X-Trace'' InHeader, param ''tracking'' InCookie, param ''id'' InPath,
              param ''session'' InCookie, param ''limit'' InQuery]"
    by (simp add: petPath_def petOperation_def orElse_def)
  from cookie_parameters_not_surfaced
         [of "''get''" "''/pets/{id}''" petOperation "orElse (path_parameters petPath) []" petSpec]
  show ?thesis
    unfolding a b
    by (simp add: param_def OpenAPIParser_parseParameter_def Let_def withoutCookies_def)
qed

lemma split_no_sep: "sep \<notin> set s \<Longrightarrow> split sep s = [s]"
  by (induction s) auto

lemma split_at_sep: "sep \<notin> set s \<Longrightarrow> split sep (s @ sep # t) = s # split sep t"
  by (induction s) auto

lemma split_segments:
  "sep \<notin> set x \<Longrightarrow> \<forall>s \<in> set xs. sep \<notin> set s \<Longrightarrow>
   split sep (x @ concat (map (\<lambda>s. sep # s) xs)) = x # xs"
proof (induction xs arbitrary: x)
  case Nil
  then show ?case by (simp add: split_no_sep)
next
  case (Cons y ys)
  then show ?case by (simp add: split_at_sep)
qed

lemma split_pathOf:
  "\<forall>s \<in> set segments. CHR ''/'' \<notin> set s \<Longrightarrow> split CHR ''/'' (pathOf segments) = [] # segments"
  using split_segments [of "CHR ''/''" "[]" segments] by (simp add: pathOf_def)

lemma drop_to_last: "rest \<noteq> [] \<Longrightarrow> drop (length rest) (c # rest) = [last rest]"
  by (induction rest arbitrary: c) auto

lemma slice_inner: "rest \<noteq> [] \<Longrightarrow> slice (c # rest) 1 (- 1) = butlast rest"
  by (simp add: slice_def sliceIndex_def Let_def butlast_conv_take)

lemma segment_refines:
  "(if startsWith p ''{'' \<and> endsWith p ''}'' then ''By'' @ capitalize (slice p 1 (- 1))
    else capitalize p) = operationIdSegment p"
proof (cases p)
  case Nil
  then show ?thesis
    by (simp add: operationIdSegment_def startsWith_def endsWith_def capitalize_def
        toUpperCase_def sliceFrom_def)
next
  case (Cons c rest)
  show ?thesis
  proof (cases "rest = []")
    case True
    with Cons show ?thesis
      by (auto simp: operationIdSegment_def startsWith_def endsWith_def)
  next
    case False
    with Cons show ?thesis
      by (auto simp: operationIdSegment_def startsWith_def endsWith_def slice_inner
          drop_to_last)
  qed
qed

lemma generateOperationId_segments:
  "OpenAPIParser_generateOperationId method path =
     toLowerCase method @ concat (map operationIdSegment (filter (\<lambda>p. p \<noteq> []) (split CHR ''/'' path)))"
proof -
  have "join [] xs = concat xs" for xs :: "string list"
    by (induction "[] :: string" xs rule: join.induct) simp_all
  then show ?thesis
    by (simp add: OpenAPIParser_generateOperationId_def Let_def segment_refines)
qed

text \<open>
  C5. An operation without an operation id gets the lowercased method followed by the
  rendering of every non-empty segment of its path, where a segment \<^verbatim>\<open>{p}\<close> is
  rendered as \<^verbatim>\<open>By\<close> and the capitalized \<^verbatim>\<open>p\<close> and any other segment is
  capitalized. The segments are the pieces of the path between slashes; for a path
  written as a list of segments they are these segments. A \<^verbatim>\<open>get\<close> on
  \<^verbatim>\<open>/users/{id}\<close> gets \<^verbatim>\<open>getUsersById\<close>.
\<close>

theorem derived_operationId:
  assumes "op_operationId operation = None"
  shows "ep_operationId (OpenAPIParser_parseOperation method path operation pathParams) =
           toLowerCase method
           @ concat (map operationIdSegment (filter (\<lambda>p. p \<noteq> []) (split CHR ''/'' path))) \<and>
         ((\<forall>s \<in> set segments. CHR ''/'' \<notin> set s) \<longrightarrow>
          ep_operationId
            (OpenAPIParser_parseOperation method (pathOf segments) operation pathParams) =
            toLowerCase method
            @ concat (map operationIdSegment (filter (\<lambda>p. p \<noteq> []) segments))) \<and>
         ep_operationId (OpenAPIParser_parseOperation ''get'' ''/users/{id}'' operation pathParams)
           = ''getUsersById''"
proof -
  have id: "ep_operationId (OpenAPIParser_parseOperation m p operation pathParams) =
              OpenAPIParser_generateOperationId m p" for m p
    using assms by (simp add: OpenAPIParser_parseOperation_def Let_def strOr_def)
  have "OpenAPIParser_generateOperationId ''get'' ''/users/{id}'' = ''getUsersById''"
    by (simp add: generateOperationId_segments operationIdSegment_def capitalize_def
        toUpperCase_def toLowerCase_def toUpperCaseChar_def toLowerCaseChar_def
        lowerLetters_def upperLetters_def sliceFrom_def sliceIndex_def)
  then show ?thesis
    by (simp add: id generateOperationId_segments split_pathOf)
qed

theorem derived_operationId_witness:
  "op_operationId petOperation = None \<and>
   CHR ''/'' \<notin> set ''users'' \<and> CHR ''/'' \<notin> set ''{id}'' \<and>
   pathOf [''users'', ''{id}''] = ''/users/{id}'' \<and>
   ep_operationId (OpenAPIParser_parseOperation ''GET'' ''/users/{id}'' petOperation []) =
     ''getUsersById'' \<and>
   ep_operationId (OpenAPIParser_parseOperation ''get'' ''/users/{id}'' petOperation []) =
     ''getUsersById''"
proof -
  have h: "op_operationId petOperation = None"
    by (simp add: petOperation_def)
  have s: "\<forall>s \<in> set [''users'', ''{id}'']. CHR ''/'' \<notin> set s"
    by simp
  have p: "pathOf [''users'', ''{id}''] = ''/users/{id}''"
    by (simp add: pathOf_def)
  from derived_operationId [OF h, of "''GET''" "''/users/{id}''" "[]" "[''users'', ''{id}'']"] s
  have "ep_operationId (OpenAPIParser_parseOperation ''GET'' (pathOf [''users'', ''{id}'']) petOperation []) =
          toLowerCase ''GET'' @ concat (map operationIdSegment [''users'', ''{id}''])"
    and "ep_operationId (OpenAPIParser_parseOperation ''get'' ''/users/{id}'' petOperation []) =
          ''getUsersById''"
    by simp_all
  then show ?thesis
    using h s p
    by (simp add: operationIdSegment_def capitalize_def toUpperCase_def toLowerCase_def
        toUpperCaseChar_def toLowerCaseChar_def lowerLetters_def upperLetters_def
        sliceFrom_def sliceIndex_def)
qed


section \<open>Design tokens: numbers with units\<close>

lemma skipWhiteSpace_none:
  "\<forall>w \<in> set whiteSpaces. \<not> startsWith s w \<Longrightarrow> skipWhiteSpace s = s"
proof -
  assume "\<forall>w \<in> set whiteSpaces. \<not> startsWith s w"
  then have "find (\<lambda>w. startsWith s w) whiteSpaces = None"
    by (simp add: find_None_iff)
  then show ?thesis
    by (simp add: skipWhiteSpace.simps [of s])
qed

lemma whiteSpace_first_byte:
  "w \<in> set whiteSpaces \<Longrightarrow> startsWith (c # cs) w \<Longrightarrow>
   c \<in> set [CHR 0x09, CHR 0x0A, CHR 0x0B, CHR 0x0C, CHR 0x0D, CHR 0x20, CHR 0xC2, CHR 0xE1,
             CHR 0xE2, CHR 0xE3, CHR 0xEF]"
  by (auto simp: whiteSpaces_def startsWith_def)

lemma skipWhiteSpace_Nil: "skipWhiteSpace [] = []"
  by (rule skipWhiteSpace_none) (simp add: whiteSpaces_def startsWith_def)

lemma skipWhiteSpace_other:
  "c \<notin> set [CHR 0x09, CHR 0x0A, CHR 0x0B, CHR 0x0C, CHR 0x0D, CHR 0x20, CHR 0xC2, CHR 0xE1,
             CHR 0xE2, CHR 0xE3, CHR 0xEF] \<Longrightarrow>
   skipWhiteSpace (c # cs) = c # cs"
  using whiteSpace_first_byte [of _ c cs] by (intro skipWhiteSpace_none) blast












lemma roundToDouble_examples:
  "roundToDouble (- (3 / 2)) = Fin (- (3 / 2))"
  "roundToDouble (3 / 2) = Fin (3 / 2)"
  "roundToDouble 8 = Fin 8"
  "roundToDouble 2 = Fin 2"
  "roundToDouble 12 = Fin 12"
  "roundToDouble 9007199254740993 = Fin 9007199254740992"
  by code_simp+

text \<open>
  White space beyond ASCII is skipped: a no-break space (U+00A0) before \<^verbatim>\<open>12\<close> fails
  the pattern, and \<^verbatim>\<open>parseFloat\<close> of the whole string is 12.
\<close>

lemma parseValue_after_no_break_space:
  "DesignTokensParser_parseValue (StringValue ([CHR 0xC2, CHR 0xA0] @ ''12'')) =
     \<lparr> numValue = Fin 12, unit = ''px'' \<rparr>"
  by (simp add: DesignTokensParser_parseValue_def matchValue_def isNumChar_def isDigit_def
      digits_def parseFloat_def Let_def
      skipWhiteSpace.simps [of "[CHR 0xC2, CHR 0xA0, CHR ''1'', CHR ''2'']"]
      skipWhiteSpace_other whiteSpaces_def startsWith_def natOfDigits_def
      digitValue_def exponentPart_def scale10_def truthyNum_def roundToDouble_examples)

text \<open>
  A numeral with more digits than a double holds is rounded: \<^verbatim>\<open>9007199254740993px\<close>
  is \<open>2^53 + 1\<close> as written and \<open>2^53\<close> as parsed.
\<close>

lemma parseValue_rounds_long_numeral:
  "DesignTokensParser_parseValue (StringValue ''9007199254740993px'') =
     \<lparr> numValue = Fin 9007199254740992, unit = ''px'' \<rparr>"
  by (simp add: DesignTokensParser_parseValue_def matchValue_def isNumChar_def isUnitChar_def
      isLetter_def lowerLetters_def upperLetters_def isDigit_def digits_def parseFloat_def
      Let_def skipWhiteSpace_other startsWith_def natOfDigits_def digitValue_def
      exponentPart_def scale10_def strOr_def roundToDouble_examples)




section \<open>Generators: initializers and the generation date\<close>

lemma join_Cons: "ys \<noteq> [] \<Longrightarrow> join sep (x # ys) = x @ sep @ join sep ys"
  by (cases ys) simp_all

lemma join_append:
  "xs \<noteq> [] \<Longrightarrow> ys \<noteq> [] \<Longrightarrow> join sep (xs @ ys) = join sep xs @ sep @ join sep ys"
  by (induction xs rule: list_nonempty_induct) (simp_all add: join_Cons)

lemma join_snoc: "join sep (xs @ [x]) = (if xs = [] then [] else join sep xs @ sep) @ x"
  by (cases "xs = []") (simp_all add: join_append)

lemma linesBefore_nonempty: "linesBeforeInitializers rt component sourceFile \<noteq> []"
  by (simp add: linesBeforeInitializers_def)

lemma linesAfter_nonempty: "linesAfterInitializers rt component \<noteq> []"
  by (simp add: linesAfterInitializers_def)

lemma initializerLines_nonempty: "initializerLines rt component \<noteq> []"
  by (simp add: initializerLines_def)

lemma generate_parts:
  "SwiftComponentGenerator_generate rt component sourceFile =
     join NL (linesBeforeInitializers rt component sourceFile) @ NL
     @ join NL (initializerLines rt component) @ NL
     @ join NL (linesAfterInitializers rt component)"
  by (simp add: SwiftComponentGenerator_generate_def join_append linesBefore_nonempty
      linesAfter_nonempty initializerLines_nonempty)

lemma formatDefaultValue_date:
  "SwiftComponentGenerator_formatDefaultValue (rt \<lparr> today := date \<rparr>) v type =
   SwiftComponentGenerator_formatDefaultValue rt v type"
  by (simp add: SwiftComponentGenerator_formatDefaultValue_def)

lemma propertyParam_date: "propertyParam (rt \<lparr> today := date \<rparr>) = propertyParam rt"
  by (rule ext) (simp add: propertyParam_def Let_def formatDefaultValue_date split: option.splits)

lemma initializerLines_date:
  "initializerLines (rt \<lparr> today := date \<rparr>) component = initializerLines rt component"
  by (simp add: initializerLines_def SwiftComponentGenerator_generateAsyncInitializer_def
      SwiftComponentGenerator_generateSyncInitializer_def
      SwiftComponentGenerator_generateInitializer_def propertyParam_date)

lemma generateStyling_date:
  "SwiftComponentGenerator_generateStyling (rt \<lparr> today := date \<rparr>) component indent =
   SwiftComponentGenerator_generateStyling rt component indent"
  by (simp add: SwiftComponentGenerator_generateStyling_def)

lemma linesAfter_date:
  "linesAfterInitializers (rt \<lparr> today := date \<rparr>) component = linesAfterInitializers rt component"
  by (simp add: linesAfterInitializers_def SwiftComponentGenerator_generateBody_def
      generateStyling_date)

lemma linesBefore_header:
  "linesBeforeInitializers rt component sourceFile =
     SwiftComponentGenerator_createHeader rt (comp_name component) sourceFile
     # tl (linesBeforeInitializers rt component sourceFile)"
  by (simp add: linesBeforeInitializers_def)

lemma linesBefore_tl_nonempty: "tl (linesBeforeInitializers rt component sourceFile) \<noteq> []"
  by (simp add: linesBeforeInitializers_def)

lemma linesBefore_tl_date:
  "tl (linesBeforeInitializers (rt \<lparr> today := date \<rparr>) component sourceFile) =
   tl (linesBeforeInitializers rt component sourceFile)"
  by (simp add: linesBeforeInitializers_def)

lemma swift_date_form:
  "SwiftComponentGenerator_generate rt component sourceFile =
     (''//'' @ NL @ ''//  '' @ comp_name component @ ''.swift'' @ NL @ ''//  CuppaUI'' @ NL
      @ ''//'' @ NL)
     @ ''//  Generated from component specifications on '' @ today rt @ ''.'' @ NL
     @ (''//  Copyright '' @ copyrightSign @ '' 2025 MyCuppa. All rights reserved.'' @ NL
        @ ''//'' @ NL @ ''//  '' @ comp_name component @ '' component'' @ NL @ ''//'' @ NL
        @ ''//  '' @ warningSign
        @ '' DO NOT EDIT: This file is auto-generated from component specifications.'' @ NL
        @ ''//  Source: '' @ sourceFile @ NL
        @ ''//  To make changes, update the component JSON files and regenerate.'' @ NL
        @ ''//'' @ NL @ NL
        @ join NL (tl (linesBeforeInitializers rt component sourceFile)) @ NL
        @ join NL (initializerLines rt component) @ NL
        @ join NL (linesAfterInitializers rt component))"
proof -
  have "join NL (linesBeforeInitializers rt component sourceFile) =
          SwiftComponentGenerator_createHeader rt (comp_name component) sourceFile @ NL
          @ join NL (tl (linesBeforeInitializers rt component sourceFile))"
    by (metis linesBefore_header join_Cons linesBefore_tl_nonempty)
  then show ?thesis
    by (simp add: generate_parts SwiftComponentGenerator_createHeader_def)
qed

lemma themeLines_nonempty: "themeLines rt theme sourceFile \<noteq> []"
  by (simp add: themeLines_def Let_def)

lemma fontWeight_date:
  "KotlinThemeGenerator_convertToKotlinFontWeight (rt \<lparr> today := date \<rparr>) w =
   KotlinThemeGenerator_convertToKotlinFontWeight rt w"
  by (simp add: KotlinThemeGenerator_convertToKotlinFontWeight_def split: tokenValue.splits)

lemma themeLines_date: "themeLines (rt \<lparr> today := date \<rparr>) theme sourceFile = themeLines rt theme sourceFile"
  by (simp add: themeLines_def Let_def fontWeight_date)

lemma kotlin_form:
  "KotlinThemeGenerator_generate rt theme sourceFile =
     (''// Generated by cuppa-cli from '' @ sourceFile @ NL) @ ''// Generation date: '' @ today rt @ NL
     @ (''// DO NOT EDIT MANUALLY - Changes will be overwritten'' @ NL @ NL
        @ join NL (themeLines rt theme sourceFile))"
  by (simp add: KotlinThemeGenerator_generate_def KotlinThemeGenerator_createHeader_def
      join_Cons themeLines_nonempty)
























text \<open>
  A type named after a member of \<^verbatim>\<open>Object.prototype\<close> does not map to a string, and a
  component with such a property type does not have the declared type; any other type
  that is not a binding maps to a string.
\<close>

lemma mapToSwiftType_prototype_member:
  "ComponentSpecParser_mapToSwiftType rt ''toString'' = PrototypeMember ''toString'' \<and>
   asParsedComponent (ComponentSpecParser_parse rt pickerSpec) = None"
  by (simp add: asParsedComponent_def ComponentSpecParser_parse_def pickerSpec_def Let_def
      ComponentSpecParser_parseProperties_def asParsedProperty_def asText_def
      startsWith_def endsWith_def typeMap_def typeMapLookup_def swiftOr_def
      inheritedMembers_def
      ComponentSpecParser_mapToSwiftType.simps [of _ "''toString''"])

lemma mapToSwiftType_text:
  assumes "\<not> endsWith type ''>''" and "type \<notin> set inheritedMembers"
  shows "\<exists>s. ComponentSpecParser_mapToSwiftType rt type = SwiftText s"
  using assms
  by (simp add: ComponentSpecParser_mapToSwiftType.simps [of rt type] typeMapLookup_def
      swiftOr_def split: option.splits)

text \<open>
  C9. The output of a generator depends on the moment of generation only through the
  date in its header line: for a fixed representation, source-file label and number
  printing there are a text before and a text after the date such that, for every date,
  the output is the first text, the date line and the second text. So two runs on the
  same inputs differ at most in that line, and agree when the date is the same. This
  holds for the Kotlin theme generator and for the Swift component generator.
\<close>

theorem output_varies_only_in_date_line:
  "(\<exists>pre post. \<forall>date.
      KotlinThemeGenerator_generate (rt \<lparr> today := date \<rparr>) theme sourceFile =
        pre @ ''// Generation date: '' @ date @ NL @ post) \<and>
   (\<exists>pre post. \<forall>date.
      SwiftComponentGenerator_generate (rt \<lparr> today := date \<rparr>) component componentFile =
        pre @ ''//  Generated from component specifications on '' @ date @ ''.'' @ NL @ post)"
proof
  show "\<exists>pre post. \<forall>date.
      KotlinThemeGenerator_generate (rt \<lparr> today := date \<rparr>) theme sourceFile =
        pre @ ''// Generation date: '' @ date @ NL @ post"
  proof (intro exI allI)
    fix date
    show "KotlinThemeGenerator_generate (rt \<lparr> today := date \<rparr>) theme sourceFile =
            (''// Generated by cuppa-cli from '' @ sourceFile @ NL)
            @ ''// Generation date: '' @ date @ NL
            @ (''// DO NOT EDIT MANUALLY - Changes will be overwritten'' @ NL @ NL
               @ join NL (themeLines rt theme sourceFile))"
      by (simp add: kotlin_form themeLines_date)
  qed
next
  show "\<exists>pre post. \<forall>date.
      SwiftComponentGenerator_generate (rt \<lparr> today := date \<rparr>) component componentFile =
        pre @ ''//  Generated from component specifications on '' @ date @ ''.'' @ NL @ post"
  proof (intro exI allI)
    fix date
    show "SwiftComponentGenerator_generate (rt \<lparr> today := date \<rparr>) component componentFile =
            (''//'' @ NL @ ''//  '' @ comp_name component @ ''.swift'' @ NL @ ''//  CuppaUI'' @ NL
             @ ''//'' @ NL)
            @ ''//  Generated from component specifications on '' @ date @ ''.'' @ NL
            @ (''//  Copyright '' @ copyrightSign @ '' 2025 MyCuppa. All rights reserved.'' @ NL
               @ ''//'' @ NL @ ''//  '' @ comp_name component @ '' component'' @ NL @ ''//'' @ NL
               @ ''//  '' @ warningSign
               @ '' DO NOT EDIT: This file is auto-generated from component specifications.'' @ NL
               @ ''//  Source: '' @ componentFile @ NL
               @ ''//  To make changes, update the component JSON files and regenerate.'' @ NL
               @ ''//'' @ NL @ NL
               @ join NL (tl (linesBeforeInitializers rt component componentFile)) @ NL
               @ join NL (initializerLines rt component) @ NL
               @ join NL (linesAfterInitializers rt component))"
      by (simp add: swift_date_form linesBefore_tl_date initializerLines_date linesAfter_date)
  qed
qed

theorem output_varies_only_in_date_line_witness:
  "(\<exists>pre post.
      KotlinThemeGenerator_generate (exampleRuntime \<lparr> today := ''2025-11-15'' \<rparr>) exampleTheme
          ''tokens.json'' =
        pre @ ''// Generation date: '' @ ''2025-11-15'' @ NL @ post \<and>
      KotlinThemeGenerator_generate (exampleRuntime \<lparr> today := ''2026-01-01'' \<rparr>) exampleTheme
          ''tokens.json'' =
        pre @ ''// Generation date: '' @ ''2026-01-01'' @ NL @ post) \<and>
   (\<exists>pre post.
      SwiftComponentGenerator_generate (exampleRuntime \<lparr> today := ''2025-11-15'' \<rparr>)
          buttonComponent ''button.json'' =
        pre @ ''//  Generated from component specifications on '' @ ''2025-11-15'' @ ''.'' @ NL
        @ post \<and>
      SwiftComponentGenerator_generate (exampleRuntime \<lparr> today := ''2026-01-01'' \<rparr>)
          buttonComponent ''button.json'' =
        pre @ ''//  Generated from component specifications on '' @ ''2026-01-01'' @ ''.'' @ NL
        @ post)"
  using output_varies_only_in_date_line
          [of exampleRuntime exampleTheme "''tokens.json''" buttonComponent "''button.json''"]
  by blast

text \<open>The Kotlin theme generated from the example theme.\<close>

lemma exampleTheme_kotlin:
  "KotlinThemeGenerator_generate exampleRuntime exampleTheme ''tokens.json'' =
     join NL
       [''// Generated by cuppa-cli from tokens.json'',
        ''// Generation date: 2025-11-15'',
        ''// DO NOT EDIT MANUALLY - Changes will be overwritten'',
        [],
        ''import androidx.compose.ui.graphics.Color'',
        ''import androidx.compose.ui.unit.dp'',
        ''import androidx.compose.ui.unit.sp'',
        ''import androidx.compose.material3.Typography'',
        ''import androidx.compose.ui.text.TextStyle'',
        ''import androidx.compose.ui.text.font.FontWeight'',
        [],
        ''/**'',
        '' * Design system theme generated from tokens.json'',
        '' */'',
        ''object Theme {'',
        [],
        ''    // Colors'',
        ''    object Colors {'',
        ''        val Primary = Color(0xFFFF8800)'',
        ''    }'',
        [],
        ''    // Spacing'',
        ''    object Spacing {'',
        ''        val Small = 8.dp'',
        ''    }'',
        [],
        ''}'',
        []]"
  by (simp add: kotlin_form themeLines_def exampleTheme_def exampleRuntime_def Let_def
      KotlinThemeGenerator_hasTypography_def truthyStr_def strOr_def capitalize_def
      toUpperCase_def toUpperCaseChar_def lowerLetters_def upperLetters_def sliceFrom_def
      sliceIndex_def KotlinThemeGenerator_convertToKotlinColor_def integerToString_def
      eval_nat_numeral digits_def NL_def)

end
